theory Spec2Isabelle
  imports Complex_Main "HOL-Library.Word"
begin

section \<open>Conversation state machine (src/lib/voice/conversation-state.ts)\<close>

text \<open>
  The five conversational modes, in the order of the source's union type.
\<close>

datatype ConversationState = LISTENING | SPEAKING | BARGE_IN | THINKING | IDLE

text \<open>
  One entry of the history. The source's fields are \<open>from\<close>, \<open>to\<close>,
  \<open>timestamp\<close> and the optional \<open>reason\<close>; the timestamp is the value of
  \<open>Date.now()\<close>, an integer number of milliseconds.
\<close>

record StateTransition =
  t_from :: ConversationState
  t_to :: ConversationState
  t_timestamp :: int
  t_reason :: "string option"

text \<open>
  The callbacks are optional functions. The model keeps which of them are
  registered, and a transition returns the calls it made, in order.
\<close>

record ConversationStateCallbacks =
  has_onStateChange :: bool
  has_onBargeIn :: bool
  has_onListening :: bool
  has_onSpeaking :: bool
  has_onThinking :: bool

datatype callback_call =
    OnStateChange ConversationState ConversationState "string option"
  | OnBargeIn
  | OnListening
  | OnSpeaking
  | OnThinking

record ConversationStateMachine =
  state :: ConversationState
  history :: "StateTransition list"
  callbacks :: ConversationStateCallbacks

definition maxHistorySize :: nat where
  "maxHistorySize = 50"

definition no_callbacks :: ConversationStateCallbacks where
  "no_callbacks = \<lparr>has_onStateChange = False, has_onBargeIn = False,
     has_onListening = False, has_onSpeaking = False, has_onThinking = False\<rparr>"

definition new_machine :: "ConversationStateCallbacks \<Rightarrow> ConversationStateMachine" where
  "new_machine cbs = \<lparr>state = IDLE, history = [], callbacks = cbs\<rparr>"

text \<open>The table inside \<open>isValidTransition\<close>, row by row.\<close>

fun validTransitions :: "ConversationState \<Rightarrow> ConversationState list" where
  "validTransitions IDLE = [LISTENING, THINKING]"
| "validTransitions LISTENING = [THINKING, IDLE, SPEAKING]"
| "validTransitions THINKING = [SPEAKING, LISTENING, IDLE]"
| "validTransitions SPEAKING = [LISTENING, BARGE_IN, IDLE]"
| "validTransitions BARGE_IN = [LISTENING, IDLE]"

definition isValidTransition :: "ConversationState \<Rightarrow> ConversationState \<Rightarrow> bool" where
  "isValidTransition fromS toS = (toS \<in> set (validTransitions fromS))"

text \<open>The optional calls \<open>callbacks.onX?.()\<close> of \<open>transition\<close>.\<close>

definition stateChangeCall ::
  "ConversationStateCallbacks \<Rightarrow> ConversationState \<Rightarrow> ConversationState \<Rightarrow> string option
    \<Rightarrow> callback_call list" where
  "stateChangeCall cbs fromS toS reason =
     (if has_onStateChange cbs then [OnStateChange fromS toS reason] else [])"

fun stateSpecificCall :: "ConversationStateCallbacks \<Rightarrow> ConversationState \<Rightarrow> callback_call list" where
  "stateSpecificCall cbs BARGE_IN = (if has_onBargeIn cbs then [OnBargeIn] else [])"
| "stateSpecificCall cbs LISTENING = (if has_onListening cbs then [OnListening] else [])"
| "stateSpecificCall cbs SPEAKING = (if has_onSpeaking cbs then [OnSpeaking] else [])"
| "stateSpecificCall cbs THINKING = (if has_onThinking cbs then [OnThinking] else [])"
| "stateSpecificCall cbs IDLE = []"

text \<open>
  \<open>transition(to, reason)\<close> at clock value \<open>now\<close>. The result is the returned
  boolean, the callback calls made, and the machine afterwards.
\<close>

definition transition ::
  "ConversationState \<Rightarrow> string option \<Rightarrow> int \<Rightarrow> ConversationStateMachine
    \<Rightarrow> bool \<times> callback_call list \<times> ConversationStateMachine" where
  "transition toS reason now m =
     (let fromS = state m in
      if \<not> isValidTransition fromS toS then (False, [], m)
      else
        let tr = \<lparr>t_from = fromS, t_to = toS, t_timestamp = now, t_reason = reason\<rparr>;
            pushed = history m @ [tr];
            trimmed = (if length pushed > maxHistorySize then tl pushed else pushed);
            m' = m\<lparr>history := trimmed, state := toS\<rparr>
        in (True,
            stateChangeCall (callbacks m) fromS toS reason @ stateSpecificCall (callbacks m) toS,
            m'))"

definition getState :: "ConversationStateMachine \<Rightarrow> ConversationState" where
  "getState m = state m"

definition getHistory :: "ConversationStateMachine \<Rightarrow> StateTransition list" where
  "getHistory m = history m"

text \<open>\<open>reset()\<close> discards the boolean of the transition it requests.\<close>

definition reset :: "int \<Rightarrow> ConversationStateMachine \<Rightarrow> callback_call list \<times> ConversationStateMachine" where
  "reset now m = snd (transition IDLE (Some ''Reset'') now m)"

text \<open>The allowed sets as the specification's table lists them.\<close>

fun allowed_set :: "ConversationState \<Rightarrow> ConversationState set" where
  "allowed_set IDLE = {LISTENING, THINKING}"
| "allowed_set LISTENING = {THINKING, IDLE, SPEAKING}"
| "allowed_set THINKING = {SPEAKING, LISTENING, IDLE}"
| "allowed_set SPEAKING = {LISTENING, BARGE_IN, IDLE}"
| "allowed_set BARGE_IN = {LISTENING, IDLE}"

text \<open>A sequence of transition requests, each with its reason and clock value.\<close>

fun run_transitions ::
  "(ConversationState \<times> string option \<times> int) list \<Rightarrow> ConversationStateMachine
    \<Rightarrow> ConversationStateMachine" where
  "run_transitions [] m = m"
| "run_transitions ((toS, reason, now) # rest) m =
     run_transitions rest (snd (snd (transition toS reason now m)))"

text \<open>
  The records of the requests that succeed, oldest first: what an unbounded
  history would hold.
\<close>

fun successful_records ::
  "(ConversationState \<times> string option \<times> int) list \<Rightarrow> ConversationStateMachine
    \<Rightarrow> StateTransition list" where
  "successful_records [] m = []"
| "successful_records ((toS, reason, now) # rest) m =
     (if fst (transition toS reason now m)
      then \<lparr>t_from = state m, t_to = toS, t_timestamp = now, t_reason = reason\<rparr>
             # successful_records rest (snd (snd (transition toS reason now m)))
      else successful_records rest (snd (snd (transition toS reason now m))))"

text \<open>
  A concrete request sequence: from a new machine, alternately to LISTENING
  and back to IDLE, the \<open>i\<close>-th request at clock value \<open>i\<close>.
\<close>

definition pingpong :: "nat \<Rightarrow> (ConversationState \<times> string option \<times> int) list" where
  "pingpong n = map (\<lambda>i. (if even i then LISTENING else IDLE, None, int i)) [0..<n]"

section \<open>Barge-in detector (barge-in-detector.ts)\<close>

text \<open>
  JavaScript numbers are modelled as follows: clock values and millisecond
  settings are integers, energies and confidences are real numbers. A confidence
  is computed by a division and a power, which can give a value that is not a
  finite number: that value is \<open>None\<close>. \<open>a ?? b\<close> is \<open>nullish a b\<close>.

  A JavaScript string is the list of its UTF-16 code units: \<open>length\<close> counts
  what \<open>.length\<close> counts. \<open>utf16\<close> is the string of an ASCII literal.
\<close>

type_synonym jsstring = "16 word list"

definition utf16 :: "string \<Rightarrow> jsstring" where
  "utf16 s = map of_char s"

definition nullish :: "'a option \<Rightarrow> 'a \<Rightarrow> 'a" where
  "nullish x d = (case x of None \<Rightarrow> d | Some v \<Rightarrow> v)"

datatype bargein_reason = Energy | Transcript | Combined

record BargeInDetails =
  d_energy :: "real option"
  d_transcriptLength :: "nat option"

record BargeInEvent =
  ev_timestamp :: int
  ev_reason :: bargein_reason
  ev_confidence :: "real option"
  ev_details :: BargeInDetails

text \<open>
  A callback is a value of the type \<open>'h\<close> of handlers. The configuration has an
  optional \<open>onBargeIn\<close> field; the detector has a private \<open>onBargeIn\<close> field of
  its own, which only \<open>setBargeInCallback\<close> assigns.
\<close>

record 'h BargeInConfig =
  energyThreshold :: "real option"
  minTranscriptLength :: "int option"
  debounceMs :: "int option"
  vadWindowMs :: "int option"
  cfg_onBargeIn :: "'h option"

record 'h BargeInDetector =
  config :: "'h BargeInConfig"
  lastBargeIn :: int
  energyHistory :: "real list"
  vadWindowSize :: int
  partialTranscript :: jsstring
  onBargeIn :: "'h option"

definition default_config :: "'h BargeInConfig" where
  "default_config = \<lparr>energyThreshold = None, minTranscriptLength = None,
     debounceMs = None, vadWindowMs = None, cfg_onBargeIn = None\<rparr>"

text \<open>
  The constructor copies four settings, with their defaults, into a new
  configuration object. It does not copy \<open>onBargeIn\<close>, and the private callback
  field starts as null.
\<close>

definition new_detector :: "'h BargeInConfig \<Rightarrow> 'h BargeInDetector" where
  "new_detector cfg =
     (let cfg' = \<lparr>energyThreshold = Some (nullish (energyThreshold cfg) 0.02),
                   minTranscriptLength = Some (nullish (minTranscriptLength cfg) 3),
                   debounceMs = Some (nullish (debounceMs cfg) 300),
                   vadWindowMs = Some (nullish (vadWindowMs cfg) 200),
                   cfg_onBargeIn = None\<rparr>
      in \<lparr>config = cfg',
          lastBargeIn = 0,
          energyHistory = [],
          vadWindowSize = \<lceil>real_of_int (nullish (vadWindowMs cfg') 200) / 256\<rceil>,
          partialTranscript = [],
          onBargeIn = None\<rparr>)"

definition setBargeInCallback :: "'h \<Rightarrow> 'h BargeInDetector \<Rightarrow> 'h BargeInDetector" where
  "setBargeInCallback callback d = d\<lparr>onBargeIn := Some callback\<rparr>"

text \<open>
  \<open>triggerBargeIn(event)\<close> with \<open>Date.now()\<close> returning \<open>now\<close>. The result is
  the list of callback calls made (at most one) and the detector afterwards.
\<close>

definition triggerBargeIn ::
  "BargeInEvent \<Rightarrow> int \<Rightarrow> 'h BargeInDetector \<Rightarrow> ('h \<times> BargeInEvent) list \<times> 'h BargeInDetector" where
  "triggerBargeIn event now d =
     (let timeSinceLastBargeIn = now - lastBargeIn d in
      if timeSinceLastBargeIn < nullish (debounceMs (config d)) 300 then ([], d)
      else ((case onBargeIn d of None \<Rightarrow> [] | Some h \<Rightarrow> [(h, event)]),
            d\<lparr>lastBargeIn := now\<rparr>))"

text \<open>
  \<open>String.prototype.trim\<close> removes white space and line terminators at
  both ends: the code units U+0009 to U+000D, U+0020, U+00A0, U+1680, U+2000 to
  U+200A, U+2028, U+2029, U+202F, U+205F, U+3000 and U+FEFF.
\<close>

definition is_space :: "16 word \<Rightarrow> bool" where
  "is_space u =
     (u \<in> set [0x0009, 0x000A, 0x000B, 0x000C, 0x000D, 0x0020, 0x00A0, 0x1680,
                0x2000, 0x2001, 0x2002, 0x2003, 0x2004, 0x2005, 0x2006, 0x2007, 0x2008,
                0x2009, 0x200A, 0x2028, 0x2029, 0x202F, 0x205F, 0x3000, 0xFEFF])"

definition trim :: "jsstring \<Rightarrow> jsstring" where
  "trim s = rev (dropWhile is_space (rev (dropWhile is_space s)))"

definition getAverageEnergy :: "'h BargeInDetector \<Rightarrow> real" where
  "getAverageEnergy d =
     (if length (energyHistory d) = 0 then 0
      else sum_list (energyHistory d) / real (length (energyHistory d)))"

text \<open>
  \<open>calculateConfidence\<close>. With a threshold of 0 the quotient is infinite for
  a positive energy, which \<open>Math.min\<close> caps at 1, and not a finite number
  otherwise; \<open>Math.pow\<close> of a negative number is not a number.
\<close>

definition calculateConfidence :: "real \<Rightarrow> 'h BargeInDetector \<Rightarrow> real option" where
  "calculateConfidence e d =
     (let threshold = nullish (energyThreshold (config d)) 0.02
      in if threshold * 3 = 0 then (if e > 0 then Some 1 else None)
         else (let normalized = min (e / (threshold * 3)) 1.0
               in if normalized < 0 then None else Some (normalized powr 0.7)))"

text \<open>
  \<open>processAudioChunk\<close>. The energy of the chunk is computed by
  \<open>AudioCapture.calculateEnergy\<close>, a function of another class; its result is
  the parameter \<open>e\<close>. The event's timestamp is one reading of the clock,
  \<open>triggerBargeIn\<close> takes another.
\<close>

definition processAudioChunk ::
  "real \<Rightarrow> int \<Rightarrow> int \<Rightarrow> 'h BargeInDetector \<Rightarrow> ('h \<times> BargeInEvent) list \<times> 'h BargeInDetector" where
  "processAudioChunk e t_event now d =
     (let pushed = energyHistory d @ [e];
          d1 = d\<lparr>energyHistory :=
                 (if int (length pushed) > vadWindowSize d then tl pushed else pushed)\<rparr>;
          avgEnergy = getAverageEnergy d1;
          hasVoiceActivity = (avgEnergy > nullish (energyThreshold (config d1)) 0.02)
      in if hasVoiceActivity
         then triggerBargeIn
                \<lparr>ev_timestamp = t_event, ev_reason = Energy,
                 ev_confidence = calculateConfidence avgEnergy d1,
                 ev_details = \<lparr>d_energy = Some avgEnergy, d_transcriptLength = None\<rparr>\<rparr>
                now d1
         else ([], d1))"

definition processTranscript ::
  "jsstring \<Rightarrow> bool \<Rightarrow> int \<Rightarrow> int \<Rightarrow> 'h BargeInDetector
    \<Rightarrow> ('h \<times> BargeInEvent) list \<times> 'h BargeInDetector" where
  "processTranscript text isFinal t_event now d =
     (if \<not> isFinal then
        (let d1 = d\<lparr>partialTranscript := text\<rparr>;
             len = length (trim text)
         in if int len \<ge> nullish (minTranscriptLength (config d1)) 3
            then triggerBargeIn
                   \<lparr>ev_timestamp = t_event, ev_reason = Transcript, ev_confidence = Some 0.8,
                    ev_details = \<lparr>d_energy = None, d_transcriptLength = Some len\<rparr>\<rparr>
                   now d1
            else ([], d1))
      else ([], d\<lparr>partialTranscript := []\<rparr>))"

definition processCombined ::
  "real \<Rightarrow> jsstring \<Rightarrow> bool \<Rightarrow> int \<Rightarrow> int \<Rightarrow> 'h BargeInDetector
    \<Rightarrow> ('h \<times> BargeInEvent) list \<times> 'h BargeInDetector" where
  "processCombined e text isFinal t_event now d =
     (let hasVoiceActivity = (e > nullish (energyThreshold (config d)) 0.02);
          hasTranscript = (int (length (trim text)) \<ge> nullish (minTranscriptLength (config d)) 3)
      in if hasVoiceActivity \<and> hasTranscript
         then triggerBargeIn
                \<lparr>ev_timestamp = t_event, ev_reason = Combined,
                 ev_confidence = Some (min (0.8 + 0.15) 1.0),
                 ev_details = \<lparr>d_energy = Some e, d_transcriptLength = Some (length text)\<rparr>\<rparr>
                now d
         else ([], d))"

text \<open>A sequence of trigger attempts, each an event and the clock value at the attempt.\<close>

fun run_triggers ::
  "(BargeInEvent \<times> int) list \<Rightarrow> 'h BargeInDetector
    \<Rightarrow> ('h \<times> BargeInEvent) list \<times> 'h BargeInDetector" where
  "run_triggers [] d = ([], d)"
| "run_triggers ((event, now) # rest) d =
     (let r1 = triggerBargeIn event now d; r2 = run_triggers rest (snd r1)
      in (fst r1 @ fst r2, snd r2))"

text \<open>
  The specification's rule, on the attempts alone: an attempt is honoured when
  at least \<open>debounce\<close> has elapsed since the last honoured one, and only an
  honoured attempt moves the time of the last honoured trigger.
\<close>

fun honoured :: "int \<Rightarrow> int \<Rightarrow> (BargeInEvent \<times> int) list \<Rightarrow> BargeInEvent list" where
  "honoured debounce lastT [] = []"
| "honoured debounce lastT ((event, now) # rest) =
     (if debounce \<le> now - lastT then event # honoured debounce now rest
      else honoured debounce lastT rest)"

fun last_honoured :: "int \<Rightarrow> int \<Rightarrow> (BargeInEvent \<times> int) list \<Rightarrow> int" where
  "last_honoured debounce lastT [] = lastT"
| "last_honoured debounce lastT ((event, now) # rest) =
     (if debounce \<le> now - lastT then last_honoured debounce now rest
      else last_honoured debounce lastT rest)"

definition transcript_event :: "int \<Rightarrow> nat \<Rightarrow> BargeInEvent" where
  "transcript_event t n = \<lparr>ev_timestamp = t, ev_reason = Transcript, ev_confidence = Some 0.8,
     ev_details = \<lparr>d_energy = None, d_transcriptLength = Some n\<rparr>\<rparr>"

text \<open>What any one attempt does, whichever entry point made it.\<close>

definition debounced_attempt ::
  "('h \<times> BargeInEvent) list \<times> 'h BargeInDetector \<Rightarrow> int \<Rightarrow> 'h BargeInDetector \<Rightarrow> bool" where
  "debounced_attempt r now d =
     ((fst r = [] \<or> nullish (debounceMs (config d)) 300 \<le> now - lastBargeIn d)
      \<and> lastBargeIn (snd r) = (if fst r = [] then lastBargeIn d else now))"

text \<open>A detector with the default settings and a registered callback, numbered 0.\<close>

definition detector0 :: "nat BargeInDetector" where
  "detector0 = setBargeInCallback 0 (new_detector default_config)"

section \<open>Lip sync engine (lipSyncEngine.ts)\<close>

text \<open>
  A weight set is a JavaScript object from morph-target names to numbers: a
  list of key and value pairs in insertion order, with distinct keys. The
  numbers are modelled as real numbers.
\<close>

type_synonym VisemeWeights = "(string \<times> real) list"

text \<open>\<open>weights[key] || 0\<close>: a missing key reads as 0.\<close>

definition weightOr0 :: "VisemeWeights \<Rightarrow> string \<Rightarrow> real" where
  "weightOr0 w key = (case map_of w key of None \<Rightarrow> 0 | Some v \<Rightarrow> v)"

text \<open>
  The analyser node is a browser object. The model keeps the sample rate of its
  audio context; the frequency magnitudes it reports at a poll are an input.
\<close>

record AnalyserNode =
  sampleRate :: real

record LipSyncEngine =
  analyser :: "AnalyserNode option"
  dataArray :: "8 word list"
  smoothingFactor :: real
  previousWeights :: VisemeWeights

text \<open>The constructor: \<open>fftSize = 256\<close>, so the data array has 128 bins.\<close>

definition new_engine :: "real \<Rightarrow> LipSyncEngine" where
  "new_engine rate = \<lparr>analyser = Some \<lparr>sampleRate = rate\<rparr>,
     dataArray = replicate 128 0, smoothingFactor = 0.3, previousWeights = []\<rparr>"

definition mapToVisemes :: "real \<Rightarrow> real \<Rightarrow> real \<Rightarrow> real \<Rightarrow> VisemeWeights" where
  "mapToVisemes lowFreq midFreq highFreq volume =
     (if volume < 0.1 then
        [(''jawOpen'', 0), (''mouthClose'', 1)]
      else if highFreq > 0.6 then
        [(''jawOpen'', 0.2), (''mouthStretchLeft'', 0.4), (''mouthStretchRight'', 0.4),
         (''mouthFunnel'', 0.2)]
      else if lowFreq > 0.7 then
        [(''jawOpen'', 0.8), (''mouthOpen'', 0.6), (''mouthSmileLeft'', 0.1),
         (''mouthSmileRight'', 0.1)]
      else if midFreq > 0.5 \<and> volume > 0.3 then
        [(''mouthClose'', 0.9), (''mouthPressLeft'', 0.5), (''mouthPressRight'', 0.5),
         (''jawOpen'', 0.1)]
      else if midFreq > 0.4 \<and> highFreq > 0.3 then
        [(''jawOpen'', 0.3), (''mouthSmileLeft'', 0.6), (''mouthSmileRight'', 0.6),
         (''mouthStretchLeft'', 0.3), (''mouthStretchRight'', 0.3)]
      else if lowFreq > 0.4 \<and> midFreq > 0.3 then
        [(''jawOpen'', 0.5), (''mouthFunnel'', 0.7), (''mouthPucker'', 0.6)]
      else
        [(''jawOpen'', 0.3 * volume), (''mouthOpen'', 0.2 * volume)])"

text \<open>
  \<open>getFrequencyBand\<close>: the mean of the normalised magnitudes of the bins from
  \<open>minBin\<close> up to, and without, \<open>maxBin\<close> or the end of the array.
\<close>

definition getFrequencyBand :: "real \<Rightarrow> real \<Rightarrow> LipSyncEngine \<Rightarrow> real" where
  "getFrequencyBand minFreq maxFreq e =
     (case analyser e of
        None \<Rightarrow> 0
      | Some a \<Rightarrow>
          (let nyquist = sampleRate a / 2;
               binWidth = nyquist / real (length (dataArray e));
               minBin = \<lfloor>minFreq / binWidth\<rfloor>;
               maxBin = \<lfloor>maxFreq / binWidth\<rfloor>;
               bins = [i \<leftarrow> [0 ..< length (dataArray e)]. minBin \<le> int i \<and> int i < maxBin];
               total = sum_list (map (\<lambda>i. real (unat (dataArray e ! i)) / 255) bins);
               count = length bins
           in if count > 0 then total / real count else 0))"

definition getOverallVolume :: "LipSyncEngine \<Rightarrow> real" where
  "getOverallVolume e =
     sum_list (map (\<lambda>b. real (unat b) / 255) (dataArray e)) / real (length (dataArray e))"

text \<open>
  The keys of both weight sets in the order of the JavaScript \<open>Set\<close>: each key
  at its first occurrence.
\<close>

definition allKeys :: "VisemeWeights \<Rightarrow> VisemeWeights \<Rightarrow> string list" where
  "allKeys old new = rev (remdups (rev (map fst old @ map fst new)))"

definition smoothWeights :: "VisemeWeights \<Rightarrow> LipSyncEngine \<Rightarrow> VisemeWeights" where
  "smoothWeights newWeights e =
     map (\<lambda>key.
            (let oldValue = weightOr0 (previousWeights e) key;
                 newValue = weightOr0 newWeights key;
                 lerp = oldValue + (newValue - oldValue) * smoothingFactor e
             in (key, max 0 (min 1 lerp))))
         (allKeys (previousWeights e) newWeights)"

definition setSmoothingFactor :: "real \<Rightarrow> LipSyncEngine \<Rightarrow> LipSyncEngine" where
  "setSmoothingFactor factor e = e\<lparr>smoothingFactor := max 0 (min 1 factor)\<rparr>"

definition dispose :: "LipSyncEngine \<Rightarrow> LipSyncEngine" where
  "dispose e = e\<lparr>analyser := None\<rparr>"

text \<open>
  \<open>getByteFrequencyData\<close> overwrites the array with the magnitudes the analyser
  reports; with fewer magnitudes than cells, the remaining cells keep their value.
\<close>

definition getByteFrequencyData :: "8 word list \<Rightarrow> 8 word list \<Rightarrow> 8 word list" where
  "getByteFrequencyData reported arr =
     take (length arr) reported @ drop (length reported) arr"

text \<open>
  \<open>getCurrentViseme()\<close>, one poll: the result is the returned weight set and
  the engine afterwards.
\<close>

definition getCurrentViseme :: "8 word list \<Rightarrow> LipSyncEngine \<Rightarrow> VisemeWeights \<times> LipSyncEngine" where
  "getCurrentViseme reported e =
     (case analyser e of
        None \<Rightarrow> ([], e)
      | Some a \<Rightarrow>
          (let e1 = e\<lparr>dataArray := getByteFrequencyData reported (dataArray e)\<rparr>;
               lowFreq = getFrequencyBand 0 300 e1;
               midFreq = getFrequencyBand 300 2000 e1;
               highFreq = getFrequencyBand 2000 8000 e1;
               volume = getOverallVolume e1;
               weights = mapToVisemes lowFreq midFreq highFreq volume;
               smoothedWeights = smoothWeights weights e1
           in (smoothedWeights, e1\<lparr>previousWeights := smoothedWeights\<rparr>)))"


text \<open>
  The smoothing factor is between 0 and 1 and every stored weight is in the
  unit interval: true of a new engine, and kept by every operation.
\<close>

definition engine_ok :: "LipSyncEngine \<Rightarrow> bool" where
  "engine_ok e =
     (0 \<le> smoothingFactor e \<and> smoothingFactor e \<le> 1
      \<and> list_all (\<lambda>kv. 0 \<le> snd kv \<and> snd kv \<le> 1) (previousWeights e))"

text \<open>The poses of the specification's list, by name.\<close>

datatype pose = Silence | Sibilant | OpenVowel | ClosedConsonant | MidVowel | RoundedVowel | Neutral

text \<open>The specification's thresholds, checked in its priority order.\<close>

definition classify :: "real \<Rightarrow> real \<Rightarrow> real \<Rightarrow> real \<Rightarrow> pose" where
  "classify low mid high volume =
     (if volume < 0.1 then Silence
      else if high > 0.6 then Sibilant
      else if low > 0.7 then OpenVowel
      else if mid > 0.5 \<and> volume > 0.3 then ClosedConsonant
      else if mid > 0.4 \<and> high > 0.3 then MidVowel
      else if low > 0.4 \<and> mid > 0.3 then RoundedVowel
      else Neutral)"

text \<open>The weight set of each pose; the neutral one is scaled by the volume.\<close>

fun pose_weights :: "pose \<Rightarrow> real \<Rightarrow> VisemeWeights" where
  "pose_weights Silence volume = [(''jawOpen'', 0), (''mouthClose'', 1)]"
| "pose_weights Sibilant volume =
     [(''jawOpen'', 0.2), (''mouthStretchLeft'', 0.4), (''mouthStretchRight'', 0.4),
      (''mouthFunnel'', 0.2)]"
| "pose_weights OpenVowel volume =
     [(''jawOpen'', 0.8), (''mouthOpen'', 0.6), (''mouthSmileLeft'', 0.1),
      (''mouthSmileRight'', 0.1)]"
| "pose_weights ClosedConsonant volume =
     [(''mouthClose'', 0.9), (''mouthPressLeft'', 0.5), (''mouthPressRight'', 0.5),
      (''jawOpen'', 0.1)]"
| "pose_weights MidVowel volume =
     [(''jawOpen'', 0.3), (''mouthSmileLeft'', 0.6), (''mouthSmileRight'', 0.6),
      (''mouthStretchLeft'', 0.3), (''mouthStretchRight'', 0.3)]"
| "pose_weights RoundedVowel volume =
     [(''jawOpen'', 0.5), (''mouthFunnel'', 0.7), (''mouthPucker'', 0.6)]"
| "pose_weights Neutral volume = [(''jawOpen'', 0.3 * volume), (''mouthOpen'', 0.2 * volume)]"

section \<open>Voice coordinator (src/lib/voice/VoiceCoordinator.ts)\<close>

text \<open>
  The coordinator is a class with mutable fields, asynchronous methods and
  calls into the browser. The model is a record of the fields and one function
  for every stretch of code that runs without suspension: a method up to its
  first \<open>await\<close>, and the continuation that runs when the awaited result
  arrives, which takes that result as its argument. Calls to the observers of
  \<open>VoiceCallbacks\<close> and to the browser are appended to two logs.
\<close>

datatype AudioBuffer = AudioBuffer nat

text \<open>The only function passed as a barge-in callback: \<open>this.handleBargeIn\<close>.\<close>

datatype handler = HandleBargeIn

text \<open>Which observers are registered; \<open>v_getLipSyncEngine\<close>: it returns an engine.\<close>

record VoiceCallbacks =
  v_onTranscript :: bool
  v_onResponse :: bool
  v_onStateChange :: bool
  v_onError :: bool
  v_onAudioChunk :: bool
  v_onAudioComplete :: bool
  v_onAudioStart :: bool
  v_getLipSyncEngine :: bool

datatype notification =
    NTranscript jsstring bool
  | NResponse jsstring
  | NStateChange ConversationState
  | NError string
  | NAudioChunk string
  | NAudioComplete
  | NAudioStart

datatype effect =
    SttStarted
  | SttStopped
  | ContextClosed
  | EventSourceClosed
  | ChatRequest jsstring "string option"
  | TtsRequest jsstring
  | SourceStarted AudioBuffer bool
  | SourceStopped AudioBuffer
  | TimeoutSet int

text \<open>
  \<open>stt\<close>, \<open>audioContext\<close> and \<open>currentEventSource\<close> say whether the field
  holds an object; \<open>cfg_audioContext\<close> whether the configuration supplied an
  audio context. A source node is identified by the buffer it plays. \<open>timers\<close>
  holds the due times of the pending grace timeouts.
\<close>

record VoiceCoordinator =
  stt :: bool
  stateMachine :: ConversationStateMachine
  bargeInDetector :: "handler BargeInDetector"
  vcallbacks :: VoiceCallbacks
  cfg_audioContext :: bool
  audioContext :: bool
  currentEventSource :: bool
  audioQueue :: "AudioBuffer list"
  isPlaying :: bool
  conversationId :: "string option"
  currentSourceNode :: "AudioBuffer option"
  notifications :: "notification list"
  effects :: "effect list"
  timers :: "int list"

text \<open>
  The constructor. The state machine gets one callback, \<open>onStateChange\<close>; the
  detector is constructed from a configuration whose only field is
  \<open>onBargeIn\<close>.
\<close>

definition new_coordinator :: "bool \<Rightarrow> VoiceCallbacks \<Rightarrow> VoiceCoordinator" where
  "new_coordinator providedContext cbs =
     \<lparr>stt = False,
      stateMachine = new_machine (no_callbacks\<lparr>has_onStateChange := True\<rparr>),
      bargeInDetector = new_detector (default_config\<lparr>cfg_onBargeIn := Some HandleBargeIn\<rparr>),
      vcallbacks = cbs,
      cfg_audioContext = providedContext,
      audioContext = False,
      currentEventSource = False,
      audioQueue = [],
      isPlaying = False,
      conversationId = None,
      currentSourceNode = None,
      notifications = [],
      effects = [],
      timers = []\<rparr>"

text \<open>\<open>this.callbacks.onX?.(...)\<close>: the call is made when the observer is registered.\<close>

definition notify :: "bool \<Rightarrow> notification \<Rightarrow> VoiceCoordinator \<Rightarrow> VoiceCoordinator" where
  "notify registered n c = (if registered then c\<lparr>notifications := notifications c @ [n]\<rparr> else c)"

definition perform :: "effect \<Rightarrow> VoiceCoordinator \<Rightarrow> VoiceCoordinator" where
  "perform x c = c\<lparr>effects := effects c @ [x]\<rparr>"

text \<open>
  The function the constructor registers with the state machine:
  \<open>(state) => { ...; callbacks.onStateChange?.(state) }\<close>. It has one
  parameter, which the machine's call \<open>onStateChange(from, to, reason)\<close> binds to
  its first argument.
\<close>

fun machineCallback :: "callback_call \<Rightarrow> VoiceCoordinator \<Rightarrow> VoiceCoordinator" where
  "machineCallback (OnStateChange fromS toS reason) c =
     notify (v_onStateChange (vcallbacks c)) (NStateChange fromS) c"
| "machineCallback OnBargeIn c = c"
| "machineCallback OnListening c = c"
| "machineCallback OnSpeaking c = c"
| "machineCallback OnThinking c = c"

text \<open>\<open>this.stateMachine.transition(to)\<close>, with the callbacks it runs.\<close>

definition coordTransition :: "ConversationState \<Rightarrow> int \<Rightarrow> VoiceCoordinator \<Rightarrow> VoiceCoordinator" where
  "coordTransition toS now c =
     (let r = transition toS None now (stateMachine c)
      in fold machineCallback (fst (snd r)) (c\<lparr>stateMachine := snd (snd r)\<rparr>))"

definition getCurrentState :: "VoiceCoordinator \<Rightarrow> ConversationState" where
  "getCurrentState c = getState (stateMachine c)"

definition stopAudioPlayback :: "VoiceCoordinator \<Rightarrow> VoiceCoordinator" where
  "stopAudioPlayback c =
     (let c1 = (if currentEventSource c
                then (perform EventSourceClosed c)\<lparr>currentEventSource := False\<rparr> else c);
          c2 = (case currentSourceNode c1 of
                  None \<Rightarrow> c1
                | Some node \<Rightarrow> (perform (SourceStopped node) c1)\<lparr>currentSourceNode := None\<rparr>)
      in c2\<lparr>audioQueue := [], isPlaying := False\<rparr>)"

definition playNextInQueue :: "VoiceCoordinator \<Rightarrow> VoiceCoordinator" where
  "playNextInQueue c =
     (case audioQueue c of
        [] \<Rightarrow> c\<lparr>isPlaying := False\<rparr>
      | buffer # rest \<Rightarrow>
          if \<not> audioContext c then c
          else (perform (SourceStarted buffer (v_getLipSyncEngine (vcallbacks c)))
                  (c\<lparr>isPlaying := True, audioQueue := rest\<rparr>))
               \<lparr>currentSourceNode := Some buffer\<rparr>)"

text \<open>The \<open>onended\<close> handler of a source node.\<close>

definition sourceEnded :: "VoiceCoordinator \<Rightarrow> VoiceCoordinator" where
  "sourceEnded c = playNextInQueue (c\<lparr>currentSourceNode := None\<rparr>)"

text \<open>
  \<open>playAudioChunk\<close>. \<open>decoded\<close> is the outcome of decoding the chunk:
  \<open>None\<close> when \<open>atob\<close> or \<open>decodeAudioData\<close> throws, which the method
  catches and logs.
\<close>

definition playAudioChunk :: "AudioBuffer option \<Rightarrow> VoiceCoordinator \<Rightarrow> VoiceCoordinator" where
  "playAudioChunk decoded c =
     (if \<not> audioContext c then c
      else case decoded of
             None \<Rightarrow> c
           | Some audioBuffer \<Rightarrow>
               (let c1 = c\<lparr>audioQueue := audioQueue c @ [audioBuffer]\<rparr>
                in if \<not> isPlaying c1 then playNextInQueue c1 else c1))"

text \<open>
  \<open>handleBargeIn\<close>, and the function it passes to \<open>setTimeout\<close> with a delay
  of 300 ms. \<open>timerFired\<close> runs the oldest pending timeout once it is due.
\<close>

definition handleBargeIn :: "int \<Rightarrow> VoiceCoordinator \<Rightarrow> VoiceCoordinator" where
  "handleBargeIn now c =
     (let c1 = stopAudioPlayback c;
          c2 = coordTransition BARGE_IN now c1
      in (perform (TimeoutSet 300) c2)\<lparr>timers := timers c2 @ [now + 300]\<rparr>)"

definition graceTimeout :: "int \<Rightarrow> VoiceCoordinator \<Rightarrow> VoiceCoordinator" where
  "graceTimeout now c =
     (if getState (stateMachine c) = BARGE_IN then coordTransition LISTENING now c else c)"

definition timerFired :: "int \<Rightarrow> VoiceCoordinator \<Rightarrow> VoiceCoordinator" where
  "timerFired now c =
     (case timers c of
        [] \<Rightarrow> c
      | due # rest \<Rightarrow> if due \<le> now then graceTimeout now (c\<lparr>timers := rest\<rparr>) else c)"

text \<open>
  \<open>speakResponse\<close> up to its \<open>fetch\<close>. An empty or blank text goes back
  to LISTENING without a request.
\<close>

definition speakResponse :: "jsstring \<Rightarrow> int \<Rightarrow> VoiceCoordinator \<Rightarrow> VoiceCoordinator" where
  "speakResponse text now c =
     (if text = [] \<or> trim text = [] then coordTransition LISTENING now c
      else perform (TtsRequest text)
             (notify (v_onAudioStart (vcallbacks c)) NAudioStart
                (coordTransition SPEAKING now c)))"

text \<open>The \<open>catch\<close> block of \<open>speakResponse\<close>, for an error with message \<open>msg\<close>.\<close>

definition ttsCatch :: "string \<Rightarrow> int \<Rightarrow> VoiceCoordinator \<Rightarrow> VoiceCoordinator" where
  "ttsCatch msg now c =
     coordTransition LISTENING now
       (notify (v_onError (vcallbacks c)) (NError (''TTS error: '' @ msg)) c)"

text \<open>
  The answer to the TTS request: the \<open>fetch\<close> throws, the response is not ok
  (with its status text), it has no body, or it is a stream to read.
  \<open>ttsThrown\<close> is the message of the error the \<open>try\<close> block throws, if any.
\<close>

datatype tts_response = TtsThrew string | TtsNotOk string | TtsNoBody | TtsOk

fun ttsThrown :: "tts_response \<Rightarrow> string option" where
  "ttsThrown (TtsThrew msg) = Some msg"
| "ttsThrown (TtsNotOk statusText) = Some (''TTS error: '' @ statusText)"
| "ttsThrown TtsNoBody = Some ''No response body''"
| "ttsThrown TtsOk = None"

text \<open>
  The continuations of \<open>speakResponse\<close> return whether the method has ended,
  and the coordinator.
\<close>

definition ttsResponded :: "tts_response \<Rightarrow> int \<Rightarrow> VoiceCoordinator \<Rightarrow> bool \<times> VoiceCoordinator" where
  "ttsResponded r now c =
     (case ttsThrown r of
        Some msg \<Rightarrow> (True, ttsCatch msg now c)
      | None \<Rightarrow> (False, c))"

text \<open>
  A line of a chunk of the stream: not a \<open>data: \<close> line, the \<open>[DONE]\<close>
  marker, a JSON object with its \<open>audio\<close> field and the outcome of decoding
  it, or a payload that \<open>JSON.parse\<close> rejects.
\<close>

datatype sse_line = NotData | DataDone | DataAudio string "AudioBuffer option" | DataMalformed

fun ttsLines :: "sse_line list \<Rightarrow> int \<Rightarrow> VoiceCoordinator \<Rightarrow> bool \<times> VoiceCoordinator" where
  "ttsLines [] now c = (False, c)"
| "ttsLines (NotData # rest) now c = ttsLines rest now c"
| "ttsLines (DataDone # rest) now c =
     (True, coordTransition LISTENING now
              (notify (v_onAudioComplete (vcallbacks c)) NAudioComplete c))"
| "ttsLines (DataAudio audio decoded # rest) now c =
     ttsLines rest now
       (playAudioChunk decoded (notify (v_onAudioChunk (vcallbacks c)) (NAudioChunk audio) c))"
| "ttsLines (DataMalformed # rest) now c = ttsLines rest now c"

text \<open>
  One \<open>await reader.read()\<close> of the loop: end of stream, a chunk, or an
  error. The lines of one chunk are handled in one step of the model; the source
  suspends at each \<open>await playAudioChunk\<close> between them.
\<close>

datatype tts_read = ReadDone | ReadChunk "sse_line list" | ReadThrew string

fun ttsRead :: "tts_read \<Rightarrow> int \<Rightarrow> VoiceCoordinator \<Rightarrow> bool \<times> VoiceCoordinator" where
  "ttsRead ReadDone now c = (True, c)"
| "ttsRead (ReadChunk lines) now c = ttsLines lines now c"
| "ttsRead (ReadThrew msg) now c = (True, ttsCatch msg now c)"

text \<open>
  The answer to the chat request: the \<open>fetch\<close> or \<open>response.json()\<close> throws,
  the response is not ok, or it carries data with the fields \<open>error\<close>,
  \<open>text\<close> and \<open>conversationId\<close>. \<open>chatOutcome\<close> is the result of the
  \<open>try\<close> block before it speaks: the message of the error thrown, or the text
  and the conversation id. \<open>data.error\<close> counts when it is a non-empty string.
\<close>

datatype chat_response =
    ChatThrew string
  | ChatNotOk string
  | ChatData "string option" jsstring "string option"

fun chatOutcome :: "chat_response \<Rightarrow> string + (jsstring \<times> string option)" where
  "chatOutcome (ChatThrew msg) = Inl msg"
| "chatOutcome (ChatNotOk statusText) = Inl (''API error: '' @ statusText)"
| "chatOutcome (ChatData None text cid) = Inr (text, cid)"
| "chatOutcome (ChatData (Some err) text cid) = (if err \<noteq> [] then Inl err else Inr (text, cid))"

definition chatCatch :: "string \<Rightarrow> int \<Rightarrow> VoiceCoordinator \<Rightarrow> VoiceCoordinator" where
  "chatCatch msg now c =
     coordTransition LISTENING now
       (notify (v_onError (vcallbacks c)) (NError (''Error: '' @ msg)) c)"

text \<open>\<open>processUserInput\<close> up to its \<open>fetch\<close>, and its continuation.\<close>

definition processUserInput :: "jsstring \<Rightarrow> int \<Rightarrow> VoiceCoordinator \<Rightarrow> VoiceCoordinator" where
  "processUserInput text now c =
     (let c1 = coordTransition THINKING now c
      in perform (ChatRequest text (conversationId c1)) c1)"

definition chatResponded :: "chat_response \<Rightarrow> int \<Rightarrow> VoiceCoordinator \<Rightarrow> VoiceCoordinator" where
  "chatResponded r now c =
     (case chatOutcome r of
        Inl msg \<Rightarrow> chatCatch msg now c
      | Inr (text, cid) \<Rightarrow>
          (let c1 = c\<lparr>conversationId := cid\<rparr>
           in speakResponse text now (notify (v_onResponse (vcallbacks c1)) (NResponse text) c1)))"

text \<open>
  The call of a callback by the detector: \<open>HandleBargeIn\<close> stands for the
  coordinator's \<open>handleBargeIn\<close>.
\<close>

fun runHandler :: "int \<Rightarrow> handler \<times> BargeInEvent \<Rightarrow> VoiceCoordinator \<Rightarrow> VoiceCoordinator" where
  "runHandler now (HandleBargeIn, event) c = handleBargeIn now c"

definition handleTranscript :: "jsstring \<Rightarrow> bool \<Rightarrow> int \<Rightarrow> VoiceCoordinator \<Rightarrow> VoiceCoordinator" where
  "handleTranscript text isFinal now c =
     (let c1 = notify (v_onTranscript (vcallbacks c)) (NTranscript text isFinal) c;
          c2 = (if getState (stateMachine c1) = SPEAKING
                then (let r = processTranscript text isFinal now now (bargeInDetector c1)
                      in fold (runHandler now) (fst r) (c1\<lparr>bargeInDetector := snd r\<rparr>))
                else c1)
      in if isFinal \<and> trim text \<noteq> [] then processUserInput text now c2 else c2)"

text \<open>
  \<open>start()\<close>, for the case that nothing throws: the audio context is the
  configured one or a new one, speech recognition starts, and the machine is
  asked for LISTENING. The \<open>await\<close> between the last two is not a separate
  step of the model. \<open>stop()\<close> has no suspension.
\<close>

definition start :: "int \<Rightarrow> VoiceCoordinator \<Rightarrow> VoiceCoordinator" where
  "start now c =
     coordTransition LISTENING now
       (perform SttStarted (c\<lparr>audioContext := True, stt := True\<rparr>))"

definition stop :: "int \<Rightarrow> VoiceCoordinator \<Rightarrow> VoiceCoordinator" where
  "stop now c =
     (let c1 = (if stt c then (perform SttStopped c)\<lparr>stt := False\<rparr> else c);
          c2 = stopAudioPlayback c1;
          c3 = (if audioContext c2 \<and> \<not> cfg_audioContext c2
                then (perform ContextClosed c2)\<lparr>audioContext := False\<rparr> else c2)
      in coordTransition IDLE now c3)"

text \<open>
  What can happen to a coordinator, each with the clock value at that moment,
  and a run of such events from the left.
\<close>

datatype coord_event =
    Start
  | Stop
  | TranscriptArrived jsstring bool
  | ChatAnswered chat_response
  | TtsAnswered tts_response
  | TtsStreamRead tts_read
  | SourceEnded
  | TimerFired

fun step :: "coord_event \<times> int \<Rightarrow> VoiceCoordinator \<Rightarrow> VoiceCoordinator" where
  "step (Start, now) c = start now c"
| "step (Stop, now) c = stop now c"
| "step (TranscriptArrived text isFinal, now) c = handleTranscript text isFinal now c"
| "step (ChatAnswered r, now) c = chatResponded r now c"
| "step (TtsAnswered r, now) c = snd (ttsResponded r now c)"
| "step (TtsStreamRead r, now) c = snd (ttsRead r now c)"
| "step (SourceEnded, now) c = sourceEnded c"
| "step (TimerFired, now) c = timerFired now c"

definition run :: "(coord_event \<times> int) list \<Rightarrow> VoiceCoordinator \<Rightarrow> VoiceCoordinator" where
  "run events c = fold step events c"

text \<open>The messages of the error notifications, oldest first.\<close>

fun error_of :: "notification \<Rightarrow> string list" where
  "error_of (NError msg) = [msg]"
| "error_of (NTranscript text isFinal) = []"
| "error_of (NResponse text) = []"
| "error_of (NStateChange s) = []"
| "error_of (NAudioChunk audio) = []"
| "error_of NAudioComplete = []"
| "error_of NAudioStart = []"

definition errors :: "VoiceCoordinator \<Rightarrow> string list" where
  "errors c = concat (map error_of (notifications c))"

text \<open>
  All observers registered, as the application's hook registers them, and a
  coordinator that hook would create: with an audio context of the hook's.
\<close>

definition all_callbacks :: VoiceCallbacks where
  "all_callbacks = \<lparr>v_onTranscript = True, v_onResponse = True, v_onStateChange = True,
     v_onError = True, v_onAudioChunk = True, v_onAudioComplete = True, v_onAudioStart = True,
     v_getLipSyncEngine = True\<rparr>"

definition hook_coordinator :: VoiceCoordinator where
  "hook_coordinator = new_coordinator True all_callbacks"

text \<open>
  A turn up to the first audio: start, a final transcript, a chat answer with
  text, an ok TTS answer, and a first chunk that decodes to buffer 1.
\<close>

definition speaking_turn :: "(coord_event \<times> int) list" where
  "speaking_turn =
     [(Start, 1000),
      (TranscriptArrived (utf16 ''hi'') True, 2000),
      (ChatAnswered (ChatData None (utf16 ''hello there'') (Some ''c1'')), 2500),
      (TtsAnswered TtsOk, 2700),
      (TtsStreamRead (ReadChunk [DataAudio ''QQ=='' (Some (AudioBuffer 1)), NotData]), 2800)]"

text \<open>The start of a turn: start and a final transcript, with the chat request pending.\<close>

definition thinking_turn :: "(coord_event \<times> int) list" where
  "thinking_turn = [(Start, 1000), (TranscriptArrived (utf16 ''hi'') True, 2000)]"

text \<open>
  Three continuations of the speaking turn: a partial transcript arrives while
  the answer is spoken; \<open>stop()\<close> is called; and the chunk the stream delivers
  after that, which decodes to buffer 2.
\<close>

definition interrupted_turn :: "(coord_event \<times> int) list" where
  "interrupted_turn = speaking_turn @ [(TranscriptArrived (utf16 ''stop talking'') False, 3000)]"

definition stopped_turn :: "(coord_event \<times> int) list" where
  "stopped_turn = speaking_turn @ [(Stop, 3000)]"

definition stale_chunk :: "coord_event \<times> int" where
  "stale_chunk = (TtsStreamRead (ReadChunk [DataAudio ''Qg=='' (Some (AudioBuffer 2))]), 3100)"

text \<open>
  What holds of a coordinator from its construction on: the observers are the
  ones given, the state machine calls back on a state change, the detector has
  no callback, no timeout is pending and the machine is not in BARGE_IN.
\<close>

definition as_constructed :: "VoiceCallbacks \<Rightarrow> VoiceCoordinator \<Rightarrow> bool" where
  "as_constructed cbs c =
     (vcallbacks c = cbs
      \<and> has_onStateChange (callbacks (stateMachine c))
      \<and> onBargeIn (bargeInDetector c) = None
      \<and> timers c = []
      \<and> state (stateMachine c) \<noteq> BARGE_IN)"

section \<open>Properties of the state machine\<close>

lemma isValidTransition_allowed_set:
  "isValidTransition s t = (t \<in> allowed_set s)"
  by (cases s) (auto simp: isValidTransition_def)

lemma transition_valid:
  assumes "isValidTransition (state m) t"
  shows "transition t r now m =
     (True,
      stateChangeCall (callbacks m) (state m) t r @ stateSpecificCall (callbacks m) t,
      m\<lparr>history := (if length (history m) < maxHistorySize then history m else tl (history m))
             @ [\<lparr>t_from = state m, t_to = t, t_timestamp = now, t_reason = r\<rparr>],
         state := t\<rparr>)"
proof (cases "history m")
  case Nil
  with assms show ?thesis
    by (simp add: transition_def Let_def maxHistorySize_def)
next
  case (Cons h hs)
  with assms show ?thesis
    by (simp add: transition_def Let_def maxHistorySize_def)
qed

lemma transition_invalid:
  assumes "\<not> isValidTransition (state m) t"
  shows "transition t r now m = (False, [], m)"
  using assms by (simp add: transition_def)

text \<open>
  Claim C1. A request to move to \<open>T\<close> succeeds exactly when \<open>T\<close> is in the
  allowed set of the current state. On success the call returns true, the new
  record is the last entry of the history (behind the old entries, the oldest of
  which is dropped when the history was full) and the current state is \<open>T\<close>. On
  failure the call returns false, makes no callback call and leaves the machine
  as it was.
\<close>

theorem transition_iff_allowed:
  "fst (transition T r now m) = (T \<in> allowed_set (state m))
   \<and> (T \<in> allowed_set (state m) \<longrightarrow>
        state (snd (snd (transition T r now m))) = T
      \<and> history (snd (snd (transition T r now m))) =
          (if length (history m) < 50 then history m else tl (history m))
            @ [\<lparr>t_from = state m, t_to = T, t_timestamp = now, t_reason = r\<rparr>])
   \<and> (T \<notin> allowed_set (state m) \<longrightarrow>
        transition T r now m = (False, [], m))"
proof (cases "isValidTransition (state m) T")
  case True
  then show ?thesis
    using transition_valid [OF True, of r now]
    by (simp add: isValidTransition_allowed_set maxHistorySize_def)
next
  case False
  then show ?thesis
    using transition_invalid [OF False, of r now]
    by (simp add: isValidTransition_allowed_set)
qed

theorem transition_iff_allowed_witness:
  "LISTENING \<in> allowed_set (state (new_machine no_callbacks))
   \<and> SPEAKING \<notin> allowed_set (state (new_machine no_callbacks))
   \<and> fst (transition LISTENING None 7 (new_machine no_callbacks))
   \<and> state (snd (snd (transition LISTENING None 7 (new_machine no_callbacks)))) = LISTENING
   \<and> history (snd (snd (transition LISTENING None 7 (new_machine no_callbacks)))) =
        [\<lparr>t_from = IDLE, t_to = LISTENING, t_timestamp = 7, t_reason = None\<rparr>]
   \<and> transition SPEAKING None 7 (new_machine no_callbacks) =
        (False, [], new_machine no_callbacks)"
  using transition_iff_allowed [of LISTENING None 7 "new_machine no_callbacks"]
        transition_iff_allowed [of SPEAKING None 7 "new_machine no_callbacks"]
  by (simp add: new_machine_def)

lemma transition_history_bound:
  assumes "length (history m) \<le> maxHistorySize"
  shows "length (history (snd (snd (transition t r now m)))) \<le> maxHistorySize"
proof (cases "isValidTransition (state m) t")
  case True
  with assms show ?thesis by (simp add: transition_valid maxHistorySize_def)
next
  case False
  with assms show ?thesis by (simp add: transition_invalid)
qed

lemma drop_full_append:
  assumes "length h = 50"
  shows "drop (length (h @ x # ys) - 50) (h @ x # ys) =
         drop (length ((tl h @ [x]) @ ys) - 50) ((tl h @ [x]) @ ys)"
proof (cases h)
  case Nil
  with assms show ?thesis by simp
next
  case (Cons a as)
  with assms show ?thesis by simp
qed

text \<open>
  From a machine whose history holds at most 50 entries, the history after any
  requests is the last 50 entries of the old history followed by the records of
  the requests that succeeded.
\<close>

lemma run_transitions_history:
  assumes "length (history m) \<le> 50"
  shows "history (run_transitions reqs m) =
     drop (length (history m @ successful_records reqs m) - 50)
          (history m @ successful_records reqs m)"
  using assms
proof (induction reqs arbitrary: m)
  case Nil
  then show ?case by simp
next
  case (Cons q rest)
  obtain t r now where q: "q = (t, r, now)" by (cases q) auto
  show ?case
  proof (cases "isValidTransition (state m) t")
    case False
    then show ?thesis
      using Cons.IH [of m] Cons.prems by (simp add: q transition_invalid)
  next
    case True
    let ?rec = "\<lparr>t_from = state m, t_to = t, t_timestamp = now, t_reason = r\<rparr>"
    let ?m' = "snd (snd (transition t r now m))"
    have h': "history ?m' =
        (if length (history m) < 50 then history m else tl (history m)) @ [?rec]"
      using True by (simp add: transition_valid maxHistorySize_def)
    have bound: "length (history ?m') \<le> 50"
      using transition_history_bound [of m t r now] Cons.prems
      by (simp add: maxHistorySize_def)
    have ih: "history (run_transitions rest ?m') =
       drop (length (history ?m' @ successful_records rest ?m') - 50)
            (history ?m' @ successful_records rest ?m')"
      by (rule Cons.IH [OF bound])
    have recs: "successful_records (q # rest) m = ?rec # successful_records rest ?m'"
      using True by (simp add: q transition_valid)
    show ?thesis
    proof (cases "length (history m) < 50")
      case True
      then show ?thesis using ih h' recs by (simp add: q)
    next
      case False
      with Cons.prems have len: "length (history m) = 50" by simp
      show ?thesis
        using ih h' recs len
          drop_full_append [OF len, of ?rec "successful_records rest ?m'"]
        by (simp add: q)
    qed
  qed
qed

text \<open>
  Claim C7. Whatever requests a new machine receives, its history never holds
  more than 50 entries, and it is exactly the last 50 records of the successful
  transitions, oldest first. In particular, once 51 transitions have succeeded
  the history is those 51 records without the oldest one.
\<close>

theorem history_bounded_fifo:
  "length (history (run_transitions reqs (new_machine cbs))) \<le> 50
   \<and> history (run_transitions reqs (new_machine cbs)) =
       drop (length (successful_records reqs (new_machine cbs)) - 50)
            (successful_records reqs (new_machine cbs))
   \<and> (length (successful_records reqs (new_machine cbs)) = 51 \<longrightarrow>
        history (run_transitions reqs (new_machine cbs)) =
          tl (successful_records reqs (new_machine cbs)))"
proof -
  have start: "length (history (new_machine cbs)) \<le> 50"
    by (simp add: new_machine_def)
  have eq: "history (run_transitions reqs (new_machine cbs)) =
       drop (length (successful_records reqs (new_machine cbs)) - 50)
            (successful_records reqs (new_machine cbs))"
    using run_transitions_history [OF start, of reqs] by (simp add: new_machine_def)
  have len: "length (history (run_transitions reqs (new_machine cbs))) \<le> 50"
    by (subst eq) simp
  have one: "length (successful_records reqs (new_machine cbs)) = 51 \<longrightarrow>
        history (run_transitions reqs (new_machine cbs)) =
          tl (successful_records reqs (new_machine cbs))"
    by (subst eq) (simp add: drop_Suc)
  from len eq one show ?thesis by blast
qed

theorem history_bounded_fifo_witness:
  "length (successful_records (pingpong 51) (new_machine no_callbacks)) = 51
   \<and> history (run_transitions (pingpong 51) (new_machine no_callbacks)) =
       tl (successful_records (pingpong 51) (new_machine no_callbacks))
   \<and> map t_timestamp (history (run_transitions (pingpong 51) (new_machine no_callbacks))) =
       map int [1..<51]"
proof -
  have len: "length (successful_records (pingpong 51) (new_machine no_callbacks)) = 51"
    by code_simp
  have stamps:
    "map t_timestamp (history (run_transitions (pingpong 51) (new_machine no_callbacks))) =
       map int [1..<51]"
    by code_simp
  from history_bounded_fifo [of "pingpong 51" no_callbacks] len stamps
  show ?thesis by blast
qed

text \<open>
  Claim C6, as amended. IDLE is in the allowed set of every state but IDLE
  itself. So \<open>reset()\<close> from any other state is a successful transition to IDLE,
  recorded with the reason "Reset"; in IDLE the request is rejected, and nothing
  is recorded, called or changed. Either way the machine is in IDLE afterwards.
\<close>

theorem reset_reaches_idle:
  "(S \<noteq> IDLE \<longrightarrow> IDLE \<in> allowed_set S \<and> isValidTransition S IDLE)
   \<and> (state m \<noteq> IDLE \<longrightarrow>
        fst (transition IDLE (Some ''Reset'') now m)
      \<and> history (snd (reset now m)) =
          (if length (history m) < 50 then history m else tl (history m))
            @ [\<lparr>t_from = state m, t_to = IDLE, t_timestamp = now, t_reason = Some ''Reset''\<rparr>])
   \<and> (state m = IDLE \<longrightarrow>
        \<not> fst (transition IDLE (Some ''Reset'') now m) \<and> reset now m = ([], m))
   \<and> state (snd (reset now m)) = IDLE"
proof -
  have a: "S \<noteq> IDLE \<longrightarrow> IDLE \<in> allowed_set S \<and> isValidTransition S IDLE"
    by (cases S) (simp_all add: isValidTransition_def)
  show ?thesis
  proof (cases "state m = IDLE")
    case True
    then have "\<not> isValidTransition (state m) IDLE"
      by (simp add: isValidTransition_def)
    then have "transition IDLE (Some ''Reset'') now m = (False, [], m)"
      by (rule transition_invalid)
    with True a show ?thesis by (simp add: reset_def)
  next
    case False
    then have v: "isValidTransition (state m) IDLE"
      by (cases "state m") (simp_all add: isValidTransition_def)
    show ?thesis
      using False a transition_valid [OF v, of "Some ''Reset''" now]
      by (simp add: reset_def maxHistorySize_def)
  qed
qed

theorem reset_reaches_idle_witness:
  "SPEAKING \<noteq> IDLE \<and> IDLE \<in> allowed_set SPEAKING
   \<and> state (snd (snd (transition LISTENING None 1 (new_machine no_callbacks)))) \<noteq> IDLE
   \<and> history (snd (reset 2 (snd (snd (transition LISTENING None 1 (new_machine no_callbacks)))))) =
       [\<lparr>t_from = IDLE, t_to = LISTENING, t_timestamp = 1, t_reason = None\<rparr>,
        \<lparr>t_from = LISTENING, t_to = IDLE, t_timestamp = 2, t_reason = Some ''Reset''\<rparr>]
   \<and> state (new_machine no_callbacks) = IDLE
   \<and> reset 2 (new_machine no_callbacks) = ([], new_machine no_callbacks)"
  using reset_reaches_idle [of SPEAKING
          "snd (snd (transition LISTENING None 1 (new_machine no_callbacks)))" 2]
        reset_reaches_idle [of SPEAKING "new_machine no_callbacks" 2]
  by (simp add: new_machine_def transition_def isValidTransition_def maxHistorySize_def
        no_callbacks_def stateChangeCall_def)

text \<open>
  The claim as stated fails in IDLE: IDLE is not in its own allowed set, and
  \<open>reset()\<close> on a new machine is a rejected request that records nothing.
\<close>

theorem reset_in_idle_counterexample:
  "IDLE \<notin> allowed_set IDLE
   \<and> \<not> isValidTransition IDLE IDLE
   \<and> \<not> fst (transition IDLE (Some ''Reset'') 2 (new_machine no_callbacks))
   \<and> history (snd (reset 2 (new_machine no_callbacks))) = []"
  by (simp add: new_machine_def transition_def isValidTransition_def reset_def)

section \<open>Properties of the barge-in detector\<close>

lemma triggerBargeIn_step:
  "fst (triggerBargeIn ev now d) =
     (if nullish (debounceMs (config d)) 300 \<le> now - lastBargeIn d
      then (case onBargeIn d of None \<Rightarrow> [] | Some h \<Rightarrow> [(h, ev)]) else [])
   \<and> snd (triggerBargeIn ev now d) =
     (if nullish (debounceMs (config d)) 300 \<le> now - lastBargeIn d
      then d\<lparr>lastBargeIn := now\<rparr> else d)"
  by (simp add: triggerBargeIn_def Let_def not_less)

lemma run_triggers_spec:
  assumes "onBargeIn d = Some h"
  shows "fst (run_triggers atts d) =
           map (Pair h) (honoured (nullish (debounceMs (config d)) 300) (lastBargeIn d) atts)
     \<and> lastBargeIn (snd (run_triggers atts d)) =
           last_honoured (nullish (debounceMs (config d)) 300) (lastBargeIn d) atts
     \<and> config (snd (run_triggers atts d)) = config d
     \<and> onBargeIn (snd (run_triggers atts d)) = onBargeIn d"
  using assms
proof (induction atts arbitrary: d)
  case Nil
  then show ?case by simp
next
  case (Cons a atts)
  obtain ev now where a: "a = (ev, now)" by (cases a) auto
  let ?d1 = "snd (triggerBargeIn ev now d)"
  have c: "config ?d1 = config d" and o: "onBargeIn ?d1 = Some h"
    using Cons.prems by (auto simp: triggerBargeIn_def Let_def)
  from Cons.IH [OF o] c o Cons.prems show ?case
    by (auto simp: a Let_def triggerBargeIn_def)
qed

lemma processTranscript_route:
  "processTranscript text isFinal t_event now d =
     (if \<not> isFinal \<and> nullish (minTranscriptLength (config d)) 3 \<le> int (length (trim text))
      then triggerBargeIn (transcript_event t_event (length (trim text))) now
             (d\<lparr>partialTranscript := text\<rparr>)
      else ([], d\<lparr>partialTranscript := (if isFinal then [] else text)\<rparr>))"
  by (simp add: processTranscript_def transcript_event_def Let_def)

lemma processAudioChunk_attempt:
  "\<exists>d1 ev. lastBargeIn d1 = lastBargeIn d \<and> config d1 = config d \<and> onBargeIn d1 = onBargeIn d
     \<and> (processAudioChunk en t_event now d = triggerBargeIn ev now d1
          \<or> processAudioChunk en t_event now d = ([], d1))"
proof -
  let ?pushed = "energyHistory d @ [en]"
  let ?d1 = "d\<lparr>energyHistory :=
     (if int (length ?pushed) > vadWindowSize d then tl ?pushed else ?pushed)\<rparr>"
  have "lastBargeIn ?d1 = lastBargeIn d \<and> config ?d1 = config d \<and> onBargeIn ?d1 = onBargeIn d"
    by simp
  moreover have "(\<exists>ev. processAudioChunk en t_event now d = triggerBargeIn ev now ?d1)
      \<or> processAudioChunk en t_event now d = ([], ?d1)"
    unfolding processAudioChunk_def Let_def by (simp only: split: if_split) blast
  ultimately show ?thesis by blast
qed

lemma processTranscript_attempt:
  "\<exists>d1 ev. lastBargeIn d1 = lastBargeIn d \<and> config d1 = config d \<and> onBargeIn d1 = onBargeIn d
     \<and> (processTranscript text isFinal t_event now d = triggerBargeIn ev now d1
          \<or> processTranscript text isFinal t_event now d = ([], d1))"
proof -
  let ?d1 = "d\<lparr>partialTranscript := (if isFinal then [] else text)\<rparr>"
  have "lastBargeIn ?d1 = lastBargeIn d \<and> config ?d1 = config d \<and> onBargeIn ?d1 = onBargeIn d"
    by simp
  moreover have "(\<exists>ev. processTranscript text isFinal t_event now d = triggerBargeIn ev now ?d1)
      \<or> processTranscript text isFinal t_event now d = ([], ?d1)"
    by (cases "\<not> isFinal \<and> nullish (minTranscriptLength (config d)) 3 \<le> int (length (trim text))")
       (auto simp: processTranscript_route)
  ultimately show ?thesis by blast
qed

lemma processCombined_attempt:
  "\<exists>d1 ev. lastBargeIn d1 = lastBargeIn d \<and> config d1 = config d \<and> onBargeIn d1 = onBargeIn d
     \<and> (processCombined en text isFinal t_event now d = triggerBargeIn ev now d1
          \<or> processCombined en text isFinal t_event now d = ([], d1))"
proof -
  have "(\<exists>ev. processCombined en text isFinal t_event now d = triggerBargeIn ev now d)
      \<or> processCombined en text isFinal t_event now d = ([], d)"
    unfolding processCombined_def Let_def by (simp only: split: if_split) blast
  then show ?thesis by blast
qed

lemma route_debounced:
  assumes cb: "onBargeIn d = Some h"
    and route: "\<exists>d1 ev. lastBargeIn d1 = lastBargeIn d \<and> config d1 = config d
        \<and> onBargeIn d1 = onBargeIn d \<and> (r = triggerBargeIn ev now d1 \<or> r = ([], d1))"
  shows "debounced_attempt r now d"
proof -
  from route obtain d1 ev where d1: "lastBargeIn d1 = lastBargeIn d" "config d1 = config d"
      "onBargeIn d1 = onBargeIn d" and r: "r = triggerBargeIn ev now d1 \<or> r = ([], d1)"
    by blast
  from r show ?thesis
  proof
    assume "r = triggerBargeIn ev now d1"
    then show ?thesis using d1 cb
      by (simp add: debounced_attempt_def triggerBargeIn_step)
  next
    assume "r = ([], d1)"
    then show ?thesis using d1 by (simp add: debounced_attempt_def)
  qed
qed

lemma triggerBargeIn_honoured:
  assumes "onBargeIn d = Some h"
  shows "triggerBargeIn ev now d =
     (if nullish (debounceMs (config d)) 300 \<le> now - lastBargeIn d
      then ([(h, ev)], d\<lparr>lastBargeIn := now\<rparr>) else ([], d))"
  using assms by (simp add: triggerBargeIn_def Let_def not_less)

lemma processTranscript_result:
  assumes "onBargeIn d = Some h"
  shows "processTranscript utterance isFinal t_event now d =
     (if isFinal then ([], d\<lparr>partialTranscript := []\<rparr>)
      else if nullish (minTranscriptLength (config d)) 3 \<le> int (length (trim utterance))
              \<and> nullish (debounceMs (config d)) 300 \<le> now - lastBargeIn d
           then ([(h, \<lparr>ev_timestamp = t_event, ev_reason = Transcript, ev_confidence = Some 0.8,
                       ev_details = \<lparr>d_energy = None,
                                     d_transcriptLength = Some (length (trim utterance))\<rparr>\<rparr>)],
                 d\<lparr>partialTranscript := utterance, lastBargeIn := now\<rparr>)
           else ([], d\<lparr>partialTranscript := utterance\<rparr>))"
proof -
  have cb: "onBargeIn (d\<lparr>partialTranscript := utterance\<rparr>) = Some h"
    using assms by simp
  show ?thesis
    by (simp add: processTranscript_def Let_def triggerBargeIn_honoured [OF cb])
qed

lemma processCombined_result:
  assumes "onBargeIn d = Some h"
  shows "processCombined en utterance isFinal t_event now d =
     (if en > nullish (energyThreshold (config d)) 0.02
         \<and> nullish (minTranscriptLength (config d)) 3 \<le> int (length (trim utterance))
         \<and> nullish (debounceMs (config d)) 300 \<le> now - lastBargeIn d
      then ([(h, \<lparr>ev_timestamp = t_event, ev_reason = Combined, ev_confidence = Some 0.95,
                  ev_details = \<lparr>d_energy = Some en,
                                d_transcriptLength = Some (length utterance)\<rparr>\<rparr>)],
            d\<lparr>lastBargeIn := now\<rparr>)
      else ([], d))"
  by (simp add: processCombined_def Let_def triggerBargeIn_honoured [OF assms])

lemma processAudioChunk_result:
  assumes "onBargeIn d = Some h"
  shows "processAudioChunk en t_event now d =
     (let d1 = d\<lparr>energyHistory :=
                 (if int (length (energyHistory d @ [en])) > vadWindowSize d
                  then tl (energyHistory d @ [en]) else energyHistory d @ [en])\<rparr>
      in if getAverageEnergy d1 > nullish (energyThreshold (config d)) 0.02
            \<and> nullish (debounceMs (config d)) 300 \<le> now - lastBargeIn d
         then ([(h, \<lparr>ev_timestamp = t_event, ev_reason = Energy,
                     ev_confidence = calculateConfidence (getAverageEnergy d1) d1,
                     ev_details = \<lparr>d_energy = Some (getAverageEnergy d1),
                                   d_transcriptLength = None\<rparr>\<rparr>)],
               d1\<lparr>lastBargeIn := now\<rparr>)
         else ([], d1))"
proof -
  define d1 where "d1 = d\<lparr>energyHistory :=
                 (if int (length (energyHistory d @ [en])) > vadWindowSize d
                  then tl (energyHistory d @ [en]) else energyHistory d @ [en])\<rparr>"
  have cb: "onBargeIn d1 = Some h" and same: "config d1 = config d" "lastBargeIn d1 = lastBargeIn d"
    using assms by (simp_all add: d1_def)
  have "processAudioChunk en t_event now d =
     (if getAverageEnergy d1 > nullish (energyThreshold (config d1)) 0.02
      then triggerBargeIn
                \<lparr>ev_timestamp = t_event, ev_reason = Energy,
                 ev_confidence = calculateConfidence (getAverageEnergy d1) d1,
                 ev_details = \<lparr>d_energy = Some (getAverageEnergy d1), d_transcriptLength = None\<rparr>\<rparr>
                now d1
      else ([], d1))"
    unfolding processAudioChunk_def d1_def Let_def ..
  also have "\<dots> =
     (if getAverageEnergy d1 > nullish (energyThreshold (config d)) 0.02
            \<and> nullish (debounceMs (config d)) 300 \<le> now - lastBargeIn d
         then ([(h, \<lparr>ev_timestamp = t_event, ev_reason = Energy,
                     ev_confidence = calculateConfidence (getAverageEnergy d1) d1,
                     ev_details = \<lparr>d_energy = Some (getAverageEnergy d1),
                                   d_transcriptLength = None\<rparr>\<rparr>)],
               d1\<lparr>lastBargeIn := now\<rparr>)
         else ([], d1))"
    by (simp add: triggerBargeIn_honoured [OF cb] same)
  finally show ?thesis
    unfolding d1_def Let_def .
qed

text \<open>
  Claim C5. With a callback registered, a trigger attempt calls it, with the
  event, exactly when at least the debounce time (300 ms unless configured) has
  passed since the last honoured trigger; an honoured attempt sets the time of
  the last trigger to the clock value, an attempt that is not honoured leaves
  it. Over a sequence of attempts the calls are those of the specification's
  rule \<open>honoured\<close>. Of two attempts 100 ms apart under a debounce time of
  300 ms, the first being due, only the first calls back. The three entry points
  obey the same rule, and their results are these. \<open>processTranscript\<close> with a
  partial transcript stores it, and when its trimmed length reaches the minimum
  and the attempt is due, calls back with a transcript event and sets the time
  of the last trigger; with a final transcript it clears the stored one and does
  nothing else. \<open>processCombined\<close> calls back with a combined event and sets
  the time exactly when the energy is above the threshold, the trimmed length
  reaches the minimum and the attempt is due, and changes nothing otherwise.
  \<open>processAudioChunk\<close> pushes the energy into the window and calls back with an
  energy event and sets the time exactly when the window's average is above the
  threshold and the attempt is due.
\<close>

theorem debounce_honours_trigger:
  assumes "onBargeIn d = Some h"
  shows "fst (triggerBargeIn ev now d) =
           (if nullish (debounceMs (config d)) 300 \<le> now - lastBargeIn d then [(h, ev)] else [])
     \<and> lastBargeIn (snd (triggerBargeIn ev now d)) =
           (if nullish (debounceMs (config d)) 300 \<le> now - lastBargeIn d then now
            else lastBargeIn d)
     \<and> fst (run_triggers atts d) =
           map (Pair h) (honoured (nullish (debounceMs (config d)) 300) (lastBargeIn d) atts)
     \<and> lastBargeIn (snd (run_triggers atts d)) =
           last_honoured (nullish (debounceMs (config d)) 300) (lastBargeIn d) atts
     \<and> (nullish (debounceMs (config d)) 300 = 300 \<and> 300 \<le> t - lastBargeIn d \<longrightarrow>
           fst (run_triggers [(e1, t), (e2, t + 100)] d) = [(h, e1)]
         \<and> lastBargeIn (snd (run_triggers [(e1, t), (e2, t + 100)] d)) = t)
     \<and> debounced_attempt (processAudioChunk en t_event now d) now d
     \<and> debounced_attempt (processTranscript utterance isFinal t_event now d) now d
     \<and> debounced_attempt (processCombined en utterance isFinal t_event now d) now d
     \<and> nullish (debounceMs (config (new_detector (default_config :: 'h BargeInConfig)))) 300 = 300
     \<and> triggerBargeIn ev now d =
           (if nullish (debounceMs (config d)) 300 \<le> now - lastBargeIn d
            then ([(h, ev)], d\<lparr>lastBargeIn := now\<rparr>) else ([], d))
     \<and> processTranscript utterance isFinal t_event now d =
           (if isFinal then ([], d\<lparr>partialTranscript := []\<rparr>)
            else if nullish (minTranscriptLength (config d)) 3 \<le> int (length (trim utterance))
                    \<and> nullish (debounceMs (config d)) 300 \<le> now - lastBargeIn d
                 then ([(h, \<lparr>ev_timestamp = t_event, ev_reason = Transcript,
                             ev_confidence = Some 0.8,
                             ev_details = \<lparr>d_energy = None,
                                d_transcriptLength = Some (length (trim utterance))\<rparr>\<rparr>)],
                       d\<lparr>partialTranscript := utterance, lastBargeIn := now\<rparr>)
                 else ([], d\<lparr>partialTranscript := utterance\<rparr>))
     \<and> processCombined en utterance isFinal t_event now d =
           (if en > nullish (energyThreshold (config d)) 0.02
               \<and> nullish (minTranscriptLength (config d)) 3 \<le> int (length (trim utterance))
               \<and> nullish (debounceMs (config d)) 300 \<le> now - lastBargeIn d
            then ([(h, \<lparr>ev_timestamp = t_event, ev_reason = Combined, ev_confidence = Some 0.95,
                        ev_details = \<lparr>d_energy = Some en,
                                      d_transcriptLength = Some (length utterance)\<rparr>\<rparr>)],
                  d\<lparr>lastBargeIn := now\<rparr>)
            else ([], d))
     \<and> processAudioChunk en t_event now d =
           (let d1 = d\<lparr>energyHistory :=
                       (if int (length (energyHistory d @ [en])) > vadWindowSize d
                        then tl (energyHistory d @ [en]) else energyHistory d @ [en])\<rparr>
            in if getAverageEnergy d1 > nullish (energyThreshold (config d)) 0.02
                  \<and> nullish (debounceMs (config d)) 300 \<le> now - lastBargeIn d
               then ([(h, \<lparr>ev_timestamp = t_event, ev_reason = Energy,
                           ev_confidence = calculateConfidence (getAverageEnergy d1) d1,
                           ev_details = \<lparr>d_energy = Some (getAverageEnergy d1),
                                         d_transcriptLength = None\<rparr>\<rparr>)],
                     d1\<lparr>lastBargeIn := now\<rparr>)
               else ([], d1))"
proof -
  note seq = run_triggers_spec [OF assms]
  have one: "fst (triggerBargeIn ev now d) =
           (if nullish (debounceMs (config d)) 300 \<le> now - lastBargeIn d then [(h, ev)] else [])"
    using assms by (simp add: triggerBargeIn_step)
  have stamp: "lastBargeIn (snd (triggerBargeIn ev now d)) =
           (if nullish (debounceMs (config d)) 300 \<le> now - lastBargeIn d then now
            else lastBargeIn d)"
    by (simp add: triggerBargeIn_step)
  have s1: "fst (run_triggers atts d) =
           map (Pair h) (honoured (nullish (debounceMs (config d)) 300) (lastBargeIn d) atts)"
    and s2: "lastBargeIn (snd (run_triggers atts d)) =
           last_honoured (nullish (debounceMs (config d)) 300) (lastBargeIn d) atts"
    using seq [of atts] by blast+
  have two: "nullish (debounceMs (config d)) 300 = 300 \<and> 300 \<le> t - lastBargeIn d \<longrightarrow>
           fst (run_triggers [(e1, t), (e2, t + 100)] d) = [(h, e1)]
         \<and> lastBargeIn (snd (run_triggers [(e1, t), (e2, t + 100)] d)) = t"
    using seq [of "[(e1, t), (e2, t + 100)]"] by simp
  have a: "debounced_attempt (processAudioChunk en t_event now d) now d"
    using assms processAudioChunk_attempt by (rule route_debounced)
  have b: "debounced_attempt (processTranscript utterance isFinal t_event now d) now d"
    using assms processTranscript_attempt by (rule route_debounced)
  have c: "debounced_attempt (processCombined en utterance isFinal t_event now d) now d"
    using assms processCombined_attempt by (rule route_debounced)
  have dflt: "nullish (debounceMs (config (new_detector (default_config :: 'h BargeInConfig)))) 300 = 300"
    by (simp add: new_detector_def default_config_def nullish_def)
  show ?thesis
    by (intro conjI)
       (rule one stamp s1 s2 two a b c dflt triggerBargeIn_honoured [OF assms]
          processTranscript_result [OF assms] processCombined_result [OF assms]
          processAudioChunk_result [OF assms])+
qed

theorem debounce_honours_trigger_witness:
  "onBargeIn detector0 = Some 0
   \<and> nullish (debounceMs (config detector0)) 300 = 300
   \<and> 300 \<le> 1000 - lastBargeIn detector0
   \<and> fst (run_triggers [(transcript_event 1000 5, 1000), (transcript_event 1100 7, 1000 + 100)]
           detector0) = [(0, transcript_event 1000 5)]
   \<and> lastBargeIn (snd (run_triggers
           [(transcript_event 1000 5, 1000), (transcript_event 1100 7, 1000 + 100)] detector0)) = 1000
   \<and> fst (run_triggers [(transcript_event 1000 5, 1000), (transcript_event 1100 7, 1100),
                         (transcript_event 1300 9, 1300)] detector0)
       = [(0, transcript_event 1000 5), (0, transcript_event 1300 9)]
   \<and> fst (processTranscript (utf16 ''hello'') False 1000 1000 detector0)
       = [(0, transcript_event 1000 5)]
   \<and> processTranscript (utf16 ''hello'') False 1000 1000 detector0
       = ([(0, transcript_event 1000 5)],
          detector0\<lparr>partialTranscript := utf16 ''hello'', lastBargeIn := 1000\<rparr>)
   \<and> processTranscript (utf16 ''hello you'') False 1100 1100
         (detector0\<lparr>partialTranscript := utf16 ''hello'', lastBargeIn := 1000\<rparr>)
       = ([], detector0\<lparr>partialTranscript := utf16 ''hello you'', lastBargeIn := 1000\<rparr>)"
proof -
  let ?d1 = "detector0\<lparr>partialTranscript := utf16 ''hello'', lastBargeIn := 1000\<rparr>"
  have cb: "onBargeIn detector0 = Some 0"
    by (simp add: detector0_def setBargeInCallback_def)
  have cb1: "onBargeIn ?d1 = Some 0"
    using cb by simp
  have db: "nullish (debounceMs (config detector0)) 300 = 300"
    by (simp add: detector0_def setBargeInCallback_def new_detector_def nullish_def default_config_def)
  have lb: "lastBargeIn detector0 = 0"
    by (simp add: detector0_def setBargeInCallback_def new_detector_def)
  have ml: "nullish (minTranscriptLength (config detector0)) 3 = 3"
    by (simp add: detector0_def setBargeInCallback_def new_detector_def nullish_def default_config_def)
  have tr: "length (trim (utf16 ''hello'')) = 5" "length (trim (utf16 ''hello you'')) = 9"
    by code_simp+
  note inst = debounce_honours_trigger [OF cb, where t = 1000
          and ?e1.0 = "transcript_event 1000 5" and ?e2.0 = "transcript_event 1100 7"
          and ev = "transcript_event 1000 5" and now = 1000 and en = 0 and t_event = 1000
          and utterance = "utf16 ''hello''" and isFinal = False
          and atts = "[(transcript_event 1000 5, 1000), (transcript_event 1100 7, 1100),
                         (transcript_event 1300 9, 1300)]"]
  note inst1 = debounce_honours_trigger [OF cb1, where t = 1000
          and ?e1.0 = "transcript_event 1000 5" and ?e2.0 = "transcript_event 1100 7"
          and ev = "transcript_event 1000 5" and now = 1100 and en = 0 and t_event = 1100
          and utterance = "utf16 ''hello you''" and isFinal = False
          and atts = "[]"]
  have pre: "300 \<le> 1000 - lastBargeIn detector0"
    by (simp add: lb)
  have two: "fst (run_triggers [(transcript_event 1000 5, 1000), (transcript_event 1100 7, 1000 + 100)]
           detector0) = [(0, transcript_event 1000 5)]
     \<and> lastBargeIn (snd (run_triggers
           [(transcript_event 1000 5, 1000), (transcript_event 1100 7, 1000 + 100)] detector0)) = 1000"
    using inst db pre by blast
  have h3: "honoured 300 0 [(transcript_event 1000 5, 1000), (transcript_event 1100 7, 1100),
                         (transcript_event 1300 9, 1300)]
       = [transcript_event 1000 5, transcript_event 1300 9]"
    by simp
  have "fst (run_triggers [(transcript_event 1000 5, 1000), (transcript_event 1100 7, 1100),
                         (transcript_event 1300 9, 1300)] detector0)
       = map (Pair 0) (honoured (nullish (debounceMs (config detector0)) 300)
            (lastBargeIn detector0)
            [(transcript_event 1000 5, 1000), (transcript_event 1100 7, 1100),
                         (transcript_event 1300 9, 1300)])"
    using inst by blast
  then have three: "fst (run_triggers [(transcript_event 1000 5, 1000),
        (transcript_event 1100 7, 1100), (transcript_event 1300 9, 1300)] detector0)
       = [(0, transcript_event 1000 5), (0, transcript_event 1300 9)]"
    by (simp only: db lb h3 list.map)
  have "processTranscript (utf16 ''hello'') False 1000 1000 detector0 =
           (if False then ([], detector0\<lparr>partialTranscript := []\<rparr>)
            else if nullish (minTranscriptLength (config detector0)) 3
                      \<le> int (length (trim (utf16 ''hello'')))
                    \<and> nullish (debounceMs (config detector0)) 300 \<le> 1000 - lastBargeIn detector0
                 then ([(0, \<lparr>ev_timestamp = 1000, ev_reason = Transcript,
                             ev_confidence = Some 0.8,
                             ev_details = \<lparr>d_energy = None,
                                d_transcriptLength = Some (length (trim (utf16 ''hello'')))\<rparr>\<rparr>)],
                       detector0\<lparr>partialTranscript := utf16 ''hello'', lastBargeIn := 1000\<rparr>)
                 else ([], detector0\<lparr>partialTranscript := utf16 ''hello''\<rparr>))"
    using inst by blast
  then have first: "processTranscript (utf16 ''hello'') False 1000 1000 detector0
       = ([(0, transcript_event 1000 5)], ?d1)"
    by (simp add: ml db lb tr transcript_event_def)
  have "processTranscript (utf16 ''hello you'') False 1100 1100 ?d1 =
           (if False then ([], ?d1\<lparr>partialTranscript := []\<rparr>)
            else if nullish (minTranscriptLength (config ?d1)) 3
                      \<le> int (length (trim (utf16 ''hello you'')))
                    \<and> nullish (debounceMs (config ?d1)) 300 \<le> 1100 - lastBargeIn ?d1
                 then ([(0, \<lparr>ev_timestamp = 1100, ev_reason = Transcript,
                             ev_confidence = Some 0.8,
                             ev_details = \<lparr>d_energy = None,
                                d_transcriptLength = Some (length (trim (utf16 ''hello you'')))\<rparr>\<rparr>)],
                       ?d1\<lparr>partialTranscript := utf16 ''hello you'', lastBargeIn := 1100\<rparr>)
                 else ([], ?d1\<lparr>partialTranscript := utf16 ''hello you''\<rparr>))"
    using inst1 by blast
  then have second: "processTranscript (utf16 ''hello you'') False 1100 1100 ?d1
       = ([], detector0\<lparr>partialTranscript := utf16 ''hello you'', lastBargeIn := 1000\<rparr>)"
    by (simp add: ml db lb tr)
  have pt: "fst (processTranscript (utf16 ''hello'') False 1000 1000 detector0)
      = [(0, transcript_event 1000 5)]"
    by (simp add: first)
  show ?thesis
    by (intro conjI) (rule cb db pre two [THEN conjunct1] two [THEN conjunct2] three pt first second)+
qed

section \<open>Properties of the lip sync engine\<close>



lemma distinct_smoothWeights: "distinct (map fst (smoothWeights new e))"
  by (simp add: smoothWeights_def allKeys_def Let_def comp_def)

lemma smoothWeights_unit: "list_all (\<lambda>kv. 0 \<le> snd kv \<and> snd kv \<le> 1) (smoothWeights new e)"
  by (simp add: smoothWeights_def Let_def list_all_iff)








lemma getOverallVolume_zero:
  "getOverallVolume (e\<lparr>dataArray := replicate n 0\<rparr>) = 0"
  by (simp add: getOverallVolume_def map_replicate_const sum_list_replicate)

lemma setSmoothingFactor_ok:
  assumes "engine_ok e"
  shows "engine_ok (setSmoothingFactor factor e)"
  using assms by (simp add: engine_ok_def setSmoothingFactor_def)

lemma getCurrentViseme_ok:
  assumes "engine_ok e"
  shows "engine_ok (snd (getCurrentViseme reported e))"
proof (cases "analyser e")
  case None
  with assms show ?thesis by (simp add: getCurrentViseme_def)
next
  case (Some a)
  with assms show ?thesis
    using smoothWeights_unit
    by (simp add: getCurrentViseme_def Let_def engine_ok_def)
qed

text \<open>An analysis window whose bins all hold the same magnitude.\<close>

lemma getFrequencyBand_uniform:
  assumes a: "analyser e = Some a" and d: "dataArray e = replicate n w"
    and k: "k < n"
      "\<lfloor>minFreq / (sampleRate a / 2 / real n)\<rfloor> \<le> int k"
      "int k < \<lfloor>maxFreq / (sampleRate a / 2 / real n)\<rfloor>"
  shows "getFrequencyBand minFreq maxFreq e = real (unat w) / 255"
proof -
  define bins where "bins = [i \<leftarrow> [0 ..< n]. \<lfloor>minFreq / (sampleRate a / 2 / real n)\<rfloor> \<le> int i
      \<and> int i < \<lfloor>maxFreq / (sampleRate a / 2 / real n)\<rfloor>]"
  have mem: "k \<in> set bins" using k by (simp add: bins_def)
  then have ne: "length bins > 0" by (cases bins) auto
  have same: "map (\<lambda>i. real (unat (replicate n w ! i)) / 255) bins = map (\<lambda>i. real (unat w) / 255) bins"
    by (rule map_cong) (auto simp: bins_def)
  have total: "sum_list (map (\<lambda>i. real (unat (replicate n w ! i)) / 255) bins)
      = real (length bins) * (real (unat w) / 255)"
    unfolding same by (simp add: sum_list_triv)
  have "getFrequencyBand minFreq maxFreq e =
      (if length bins > 0
       then sum_list (map (\<lambda>i. real (unat (replicate n w ! i)) / 255) bins) / real (length bins)
       else 0)"
    unfolding getFrequencyBand_def a d bins_def Let_def
    by (simp only: option.case length_replicate)
  also have "\<dots> = real (length bins) * (real (unat w) / 255) / real (length bins)"
    using ne by (simp only: total if_True)
  also have "\<dots> = real (unat w) / 255"
    using ne by simp
  finally show ?thesis .
qed

lemma getOverallVolume_uniform:
  assumes "dataArray e = replicate n w" "n > 0"
  shows "getOverallVolume e = real (unat w) / 255"
  using assms by (simp add: getOverallVolume_def map_replicate_const sum_list_replicate)

text \<open>
  Claim C8. The weight set of a poll is one pose, chosen by the thresholds in
  priority order: silence when the volume is below 0.1; else the sibilant pose
  when the high band is above 0.6; else the open vowel when the low band is
  above 0.7; else the closed consonant when the mid band is above 0.5 and the
  volume above 0.3; else the mid vowel when the mid band is above 0.4 and the
  high band above 0.3; else the rounded vowel when the low band is above 0.4 and
  the mid band above 0.3; else the neutral pose, scaled by the volume. The
  silence pose has the jaw closed and the mouth closed. A poll of an engine that
  has its analyser returns the smoothed weights of the pose classified from the
  three band energies and the volume of the analysis window.
\<close>

theorem viseme_priority_classification:
  "mapToVisemes low mid high volume = pose_weights (classify low mid high volume) volume
   \<and> (volume < 0.1 \<longrightarrow> mapToVisemes low mid high volume = pose_weights Silence volume)
   \<and> (\<not> volume < 0.1 \<and> high > 0.6 \<longrightarrow>
        mapToVisemes low mid high volume = pose_weights Sibilant volume)
   \<and> (\<not> volume < 0.1 \<and> \<not> high > 0.6 \<and> low > 0.7 \<longrightarrow>
        mapToVisemes low mid high volume = pose_weights OpenVowel volume)
   \<and> (\<not> volume < 0.1 \<and> \<not> high > 0.6 \<and> \<not> low > 0.7 \<and> mid > 0.5 \<and> volume > 0.3 \<longrightarrow>
        mapToVisemes low mid high volume = pose_weights ClosedConsonant volume)
   \<and> (\<not> volume < 0.1 \<and> \<not> high > 0.6 \<and> \<not> low > 0.7 \<and> \<not> (mid > 0.5 \<and> volume > 0.3)
        \<and> mid > 0.4 \<and> high > 0.3 \<longrightarrow>
        mapToVisemes low mid high volume = pose_weights MidVowel volume)
   \<and> (\<not> volume < 0.1 \<and> \<not> high > 0.6 \<and> \<not> low > 0.7 \<and> \<not> (mid > 0.5 \<and> volume > 0.3)
        \<and> \<not> (mid > 0.4 \<and> high > 0.3) \<and> low > 0.4 \<and> mid > 0.3 \<longrightarrow>
        mapToVisemes low mid high volume = pose_weights RoundedVowel volume)
   \<and> (\<not> volume < 0.1 \<and> \<not> high > 0.6 \<and> \<not> low > 0.7 \<and> \<not> (mid > 0.5 \<and> volume > 0.3)
        \<and> \<not> (mid > 0.4 \<and> high > 0.3) \<and> \<not> (low > 0.4 \<and> mid > 0.3) \<longrightarrow>
        mapToVisemes low mid high volume = pose_weights Neutral volume)
   \<and> weightOr0 (pose_weights Silence volume) ''jawOpen'' = 0
   \<and> weightOr0 (pose_weights Silence volume) ''mouthClose'' = 1
   \<and> pose_weights Neutral volume = map (\<lambda>kv. (fst kv, snd kv * volume)) (pose_weights Neutral 1)
   \<and> (analyser e = Some a \<longrightarrow>
        fst (getCurrentViseme reported e) =
          (let e1 = e\<lparr>dataArray := getByteFrequencyData reported (dataArray e)\<rparr>;
               v = getOverallVolume e1
           in smoothWeights
                (pose_weights
                   (classify (getFrequencyBand 0 300 e1) (getFrequencyBand 300 2000 e1)
                      (getFrequencyBand 2000 8000 e1) v) v) e1))"
proof -
  have m: "\<And>l m h v. mapToVisemes l m h v = pose_weights (classify l m h v) v"
    by (simp add: mapToVisemes_def classify_def)
  have c1: "volume < 0.1 \<longrightarrow> mapToVisemes low mid high volume = pose_weights Silence volume"
    by (simp add: mapToVisemes_def)
  have c2: "\<not> volume < 0.1 \<and> high > 0.6 \<longrightarrow>
        mapToVisemes low mid high volume = pose_weights Sibilant volume"
    by (simp add: mapToVisemes_def)
  have c3: "\<not> volume < 0.1 \<and> \<not> high > 0.6 \<and> low > 0.7 \<longrightarrow>
        mapToVisemes low mid high volume = pose_weights OpenVowel volume"
    by (simp add: mapToVisemes_def)
  have c4: "\<not> volume < 0.1 \<and> \<not> high > 0.6 \<and> \<not> low > 0.7 \<and> mid > 0.5 \<and> volume > 0.3 \<longrightarrow>
        mapToVisemes low mid high volume = pose_weights ClosedConsonant volume"
    by (simp add: mapToVisemes_def)
  have c5: "\<not> volume < 0.1 \<and> \<not> high > 0.6 \<and> \<not> low > 0.7 \<and> \<not> (mid > 0.5 \<and> volume > 0.3)
        \<and> mid > 0.4 \<and> high > 0.3 \<longrightarrow>
        mapToVisemes low mid high volume = pose_weights MidVowel volume"
    by (simp add: mapToVisemes_def)
  have c6: "\<not> volume < 0.1 \<and> \<not> high > 0.6 \<and> \<not> low > 0.7 \<and> \<not> (mid > 0.5 \<and> volume > 0.3)
        \<and> \<not> (mid > 0.4 \<and> high > 0.3) \<and> low > 0.4 \<and> mid > 0.3 \<longrightarrow>
        mapToVisemes low mid high volume = pose_weights RoundedVowel volume"
    by (simp add: mapToVisemes_def)
  have c7: "\<not> volume < 0.1 \<and> \<not> high > 0.6 \<and> \<not> low > 0.7 \<and> \<not> (mid > 0.5 \<and> volume > 0.3)
        \<and> \<not> (mid > 0.4 \<and> high > 0.3) \<and> \<not> (low > 0.4 \<and> mid > 0.3) \<longrightarrow>
        mapToVisemes low mid high volume = pose_weights Neutral volume"
    by (simp add: mapToVisemes_def)
  have poses: "weightOr0 (pose_weights Silence volume) ''jawOpen'' = 0
     \<and> weightOr0 (pose_weights Silence volume) ''mouthClose'' = 1
     \<and> pose_weights Neutral volume = map (\<lambda>kv. (fst kv, snd kv * volume)) (pose_weights Neutral 1)"
    by (simp add: weightOr0_def)
  have poll: "analyser e = Some a \<longrightarrow>
        fst (getCurrentViseme reported e) =
          (let e1 = e\<lparr>dataArray := getByteFrequencyData reported (dataArray e)\<rparr>;
               v = getOverallVolume e1
           in smoothWeights
                (pose_weights
                   (classify (getFrequencyBand 0 300 e1) (getFrequencyBand 300 2000 e1)
                      (getFrequencyBand 2000 8000 e1) v) v) e1)"
    by (simp add: getCurrentViseme_def Let_def m)
  show ?thesis
    by (intro conjI; (rule m c1 c2 c3 c4 c5 c6 c7 poll | simp add: weightOr0_def))
qed

theorem viseme_priority_classification_witness:
  "mapToVisemes 0 0 0 0.05 = [(''jawOpen'', 0), (''mouthClose'', 1)]
   \<and> mapToVisemes 0.2 0.2 0.7 0.5 =
       [(''jawOpen'', 0.2), (''mouthStretchLeft'', 0.4), (''mouthStretchRight'', 0.4),
        (''mouthFunnel'', 0.2)]
   \<and> mapToVisemes 0.8 0.2 0.2 0.5 =
       [(''jawOpen'', 0.8), (''mouthOpen'', 0.6), (''mouthSmileLeft'', 0.1),
        (''mouthSmileRight'', 0.1)]
   \<and> mapToVisemes 0.2 0.6 0.2 0.5 =
       [(''mouthClose'', 0.9), (''mouthPressLeft'', 0.5), (''mouthPressRight'', 0.5),
        (''jawOpen'', 0.1)]
   \<and> mapToVisemes 0.2 0.45 0.4 0.2 =
       [(''jawOpen'', 0.3), (''mouthSmileLeft'', 0.6), (''mouthSmileRight'', 0.6),
        (''mouthStretchLeft'', 0.3), (''mouthStretchRight'', 0.3)]
   \<and> mapToVisemes 0.5 0.35 0.2 0.2 =
       [(''jawOpen'', 0.5), (''mouthFunnel'', 0.7), (''mouthPucker'', 0.6)]
   \<and> mapToVisemes 0.3 0.2 0.2 0.2 = [(''jawOpen'', 0.06), (''mouthOpen'', 0.04)]
   \<and> analyser (new_engine 24000) = Some \<lparr>sampleRate = 24000\<rparr>
   \<and> fst (getCurrentViseme (replicate 128 200) (new_engine 24000)) =
       [(''jawOpen'', 0.06), (''mouthStretchLeft'', 0.12), (''mouthStretchRight'', 0.12),
        (''mouthFunnel'', 0.06)]"
proof -
  let ?e = "new_engine 24000"
  let ?a = "\<lparr>sampleRate = 24000\<rparr>"
  let ?bins = "replicate 128 (200 :: 8 word)"
  have a: "analyser ?e = Some ?a"
    by (simp add: new_engine_def)
  have fill: "getByteFrequencyData ?bins (dataArray ?e) = ?bins"
    by (simp add: getByteFrequencyData_def new_engine_def)
  have vol: "getOverallVolume (?e\<lparr>dataArray := ?bins\<rparr>) = 200 / 255"
    using getOverallVolume_uniform [of "?e\<lparr>dataArray := ?bins\<rparr>" 128 200] by simp
  have "getFrequencyBand 2000 8000 (?e\<lparr>dataArray := ?bins\<rparr>) = real (unat (200 :: 8 word)) / 255"
    by (rule getFrequencyBand_uniform [where a = ?a and n = 128 and k = 21])
       (simp_all add: new_engine_def)
  then have high: "getFrequencyBand 2000 8000 (?e\<lparr>dataArray := ?bins\<rparr>) = 200 / 255"
    by simp
  have cl: "classify (getFrequencyBand 0 300 (?e\<lparr>dataArray := ?bins\<rparr>))
      (getFrequencyBand 300 2000 (?e\<lparr>dataArray := ?bins\<rparr>)) (200 / 255) (200 / 255) = Sibilant"
    by (simp add: classify_def)
  have sm: "smoothWeights (pose_weights Sibilant (200 / 255)) (?e\<lparr>dataArray := ?bins\<rparr>) =
      [(''jawOpen'', 0.06), (''mouthStretchLeft'', 0.12), (''mouthStretchRight'', 0.12),
        (''mouthFunnel'', 0.06)]"
    by (simp add: smoothWeights_def new_engine_def allKeys_def weightOr0_def Let_def)
  note t1 = viseme_priority_classification [where low = 0 and mid = 0 and high = 0
      and volume = "0.05" and e = ?e and a = ?a and reported = ?bins]
  note t2 = viseme_priority_classification [where low = "0.2" and mid = "0.2" and high = "0.7"
      and volume = "0.5" and e = ?e and a = ?a and reported = ?bins]
  note t3 = viseme_priority_classification [where low = "0.8" and mid = "0.2" and high = "0.2"
      and volume = "0.5" and e = ?e and a = ?a and reported = ?bins]
  note t4 = viseme_priority_classification [where low = "0.2" and mid = "0.6" and high = "0.2"
      and volume = "0.5" and e = ?e and a = ?a and reported = ?bins]
  note t5 = viseme_priority_classification [where low = "0.2" and mid = "0.45" and high = "0.4"
      and volume = "0.2" and e = ?e and a = ?a and reported = ?bins]
  note t6 = viseme_priority_classification [where low = "0.5" and mid = "0.35" and high = "0.2"
      and volume = "0.2" and e = ?e and a = ?a and reported = ?bins]
  note t7 = viseme_priority_classification [where low = "0.3" and mid = "0.2" and high = "0.2"
      and volume = "0.2" and e = ?e and a = ?a and reported = ?bins]
  have p1: "mapToVisemes 0 0 0 0.05 = [(''jawOpen'', 0), (''mouthClose'', 1)]"
    using t1 by (simp add: classify_def)
  have p2: "mapToVisemes 0.2 0.2 0.7 0.5 =
       [(''jawOpen'', 0.2), (''mouthStretchLeft'', 0.4), (''mouthStretchRight'', 0.4),
        (''mouthFunnel'', 0.2)]"
    using t2 by (simp add: classify_def)
  have p3: "mapToVisemes 0.8 0.2 0.2 0.5 =
       [(''jawOpen'', 0.8), (''mouthOpen'', 0.6), (''mouthSmileLeft'', 0.1),
        (''mouthSmileRight'', 0.1)]"
    using t3 by (simp add: classify_def)
  have p4: "mapToVisemes 0.2 0.6 0.2 0.5 =
       [(''mouthClose'', 0.9), (''mouthPressLeft'', 0.5), (''mouthPressRight'', 0.5),
        (''jawOpen'', 0.1)]"
    using t4 by (simp add: classify_def)
  have p5: "mapToVisemes 0.2 0.45 0.4 0.2 =
       [(''jawOpen'', 0.3), (''mouthSmileLeft'', 0.6), (''mouthSmileRight'', 0.6),
        (''mouthStretchLeft'', 0.3), (''mouthStretchRight'', 0.3)]"
    using t5 by (simp add: classify_def)
  have p6: "mapToVisemes 0.5 0.35 0.2 0.2 =
       [(''jawOpen'', 0.5), (''mouthFunnel'', 0.7), (''mouthPucker'', 0.6)]"
    using t6 by (simp add: classify_def)
  have p7: "mapToVisemes 0.3 0.2 0.2 0.2 = [(''jawOpen'', 0.06), (''mouthOpen'', 0.04)]"
    using t7 by (simp add: classify_def)
  have poll: "fst (getCurrentViseme ?bins ?e) =
       [(''jawOpen'', 0.06), (''mouthStretchLeft'', 0.12), (''mouthStretchRight'', 0.12),
        (''mouthFunnel'', 0.06)]"
    using t1 a by (simp only: fill Let_def vol high cl sm)
  show ?thesis
    by (intro conjI) (rule p1 p2 p3 p4 p5 p6 p7 a poll)+
qed









section \<open>Properties of the voice coordinator\<close>

lemma fold_stateSpecificCall:
  "fold machineCallback (stateSpecificCall cbs T) c = c"
  by (cases T) simp_all

lemma fold_stateChangeCall:
  "fold machineCallback (stateChangeCall cbs f t r) c =
     (if has_onStateChange cbs then notify (v_onStateChange (vcallbacks c)) (NStateChange f) c else c)"
  by (simp add: stateChangeCall_def)

lemma coordTransition_valid:
  assumes "isValidTransition (state (stateMachine c)) T"
  shows "coordTransition T now c =
     notify (has_onStateChange (callbacks (stateMachine c)) \<and> v_onStateChange (vcallbacks c))
       (NStateChange (state (stateMachine c)))
       (c\<lparr>stateMachine := snd (snd (transition T None now (stateMachine c)))\<rparr>)"
  using assms
  by (simp add: coordTransition_def transition_valid fold_stateSpecificCall fold_stateChangeCall
        notify_def)

lemma coordTransition_invalid:
  assumes "\<not> isValidTransition (state (stateMachine c)) T"
  shows "coordTransition T now c = c"
  using assms by (simp add: coordTransition_def transition_invalid)

lemma coordTransition_state:
  "state (stateMachine (coordTransition T now c)) =
     (if isValidTransition (state (stateMachine c)) T then T else state (stateMachine c))"
  by (simp add: coordTransition_valid coordTransition_invalid notify_def transition_valid)

lemma coordTransition_frame:
  "vcallbacks (coordTransition T now c) = vcallbacks c"
  "callbacks (stateMachine (coordTransition T now c)) = callbacks (stateMachine c)"
  "bargeInDetector (coordTransition T now c) = bargeInDetector c"
  "timers (coordTransition T now c) = timers c"
  "effects (coordTransition T now c) = effects c"
  "audioQueue (coordTransition T now c) = audioQueue c"
  "isPlaying (coordTransition T now c) = isPlaying c"
  "currentSourceNode (coordTransition T now c) = currentSourceNode c"
  "audioContext (coordTransition T now c) = audioContext c"
  "errors (coordTransition T now c) = errors c"
  by (cases "isValidTransition (state (stateMachine c)) T";
      simp add: coordTransition_valid coordTransition_invalid notify_def transition_valid errors_def)+

lemma to_listening:
  "state (stateMachine (coordTransition LISTENING now c)) = LISTENING"
  by (cases "state (stateMachine c)") (simp_all add: coordTransition_state isValidTransition_def)


subsection \<open>The coordinator from its construction on\<close>

lemma as_constructed_new: "as_constructed cbs (new_coordinator p cbs)"
  by (simp add: as_constructed_def new_coordinator_def new_machine_def new_detector_def
        no_callbacks_def)

lemma as_constructed_coordTransition:
  assumes "as_constructed cbs c" "T \<noteq> BARGE_IN"
  shows "as_constructed cbs (coordTransition T now c)"
  using assms by (simp add: as_constructed_def coordTransition_frame coordTransition_state)

lemma as_constructed_notify:
  assumes "as_constructed cbs c"
  shows "as_constructed cbs (notify b n c)"
  using assms by (simp add: as_constructed_def notify_def)

lemma as_constructed_notify':
  assumes "as_constructed cbs c"
  shows "as_constructed cbs (notify (f (vcallbacks c)) n c)"
  using assms by (rule as_constructed_notify)

lemma as_constructed_perform:
  assumes "as_constructed cbs c"
  shows "as_constructed cbs (perform x c)"
  using assms by (simp add: as_constructed_def perform_def)

lemma as_constructed_stopAudioPlayback:
  assumes "as_constructed cbs c"
  shows "as_constructed cbs (stopAudioPlayback c)"
  using assms
  by (simp add: as_constructed_def stopAudioPlayback_def perform_def Let_def split: option.split)

lemma as_constructed_playNextInQueue:
  assumes "as_constructed cbs c"
  shows "as_constructed cbs (playNextInQueue c)"
  using assms
  by (simp add: as_constructed_def playNextInQueue_def perform_def split: list.split)

lemma as_constructed_playAudioChunk:
  assumes "as_constructed cbs c"
  shows "as_constructed cbs (playAudioChunk decoded c)"
proof -
  have q: "\<And>b. as_constructed cbs (c\<lparr>audioQueue := audioQueue c @ [b]\<rparr>)"
    using assms by (simp add: as_constructed_def)
  show ?thesis
    using assms q as_constructed_playNextInQueue
    by (simp add: playAudioChunk_def Let_def split: option.split)
qed

lemma as_constructed_ttsLines:
  assumes "as_constructed cbs c"
  shows "as_constructed cbs (snd (ttsLines ls now c))"
  using assms
proof (induction ls now c rule: ttsLines.induct)
  case (3 rest now c)
  then show ?case
    by (simp add: as_constructed_coordTransition as_constructed_notify)
next
  case (4 audio decoded rest now c)
  then show ?case
    by (simp add: as_constructed_playAudioChunk as_constructed_notify)
qed simp_all

lemma as_constructed_ttsCatch:
  assumes "as_constructed cbs c"
  shows "as_constructed cbs (ttsCatch msg now c)"
  using assms by (simp add: ttsCatch_def as_constructed_coordTransition as_constructed_notify)

lemma as_constructed_speakResponse:
  assumes "as_constructed cbs c"
  shows "as_constructed cbs (speakResponse reply now c)"
  using assms
  by (simp add: speakResponse_def as_constructed_coordTransition as_constructed_notify
        as_constructed_perform)

lemma processTranscript_unwired:
  assumes "onBargeIn d = None"
  shows "fst (processTranscript utterance isFinal t_event now d) = []
       \<and> onBargeIn (snd (processTranscript utterance isFinal t_event now d)) = None"
  using assms by (simp add: processTranscript_def triggerBargeIn_def Let_def)

lemma as_constructed_handleTranscript:
  assumes "as_constructed cbs c"
  shows "as_constructed cbs (handleTranscript utterance isFinal now c)"
proof -
  define c1 where "c1 = notify (v_onTranscript (vcallbacks c)) (NTranscript utterance isFinal) c"
  define r where "r = processTranscript utterance isFinal now now (bargeInDetector c1)"
  define c2 where "c2 = (if getState (stateMachine c1) = SPEAKING
             then fold (runHandler now) (fst r) (c1\<lparr>bargeInDetector := snd r\<rparr>) else c1)"
  have unfold: "handleTranscript utterance isFinal now c =
      (if isFinal \<and> trim utterance \<noteq> [] then processUserInput utterance now c2 else c2)"
    unfolding handleTranscript_def c2_def r_def c1_def Let_def ..
  have c1: "as_constructed cbs c1"
    unfolding c1_def using assms by (rule as_constructed_notify)
  then have un: "onBargeIn (bargeInDetector c1) = None" by (simp add: as_constructed_def)
  have r: "fst r = []" "onBargeIn (snd r) = None"
    using processTranscript_unwired [OF un, of utterance isFinal now now] by (simp_all add: r_def)
  have "as_constructed cbs (c1\<lparr>bargeInDetector := snd r\<rparr>)"
    using c1 r by (simp add: as_constructed_def)
  then have c2: "as_constructed cbs c2"
    using c1 r by (simp add: c2_def)
  have "as_constructed cbs (processUserInput utterance now c2)"
    using c2 by (simp add: processUserInput_def Let_def as_constructed_coordTransition
        as_constructed_perform)
  with c2 show ?thesis unfolding unfold by simp
qed

lemma as_constructed_step:
  assumes "as_constructed cbs c"
  shows "as_constructed cbs (step ev c)"
proof -
  obtain e now where ev: "ev = (e, now)" by (cases ev) auto
  show ?thesis
  proof (cases e)
    case Start
    have "as_constructed cbs (perform SttStarted (c\<lparr>audioContext := True, stt := True\<rparr>))"
      using assms by (simp add: as_constructed_def perform_def)
    then show ?thesis
      by (simp add: ev Start start_def as_constructed_coordTransition)
  next
    case Stop
    let ?c1 = "if stt c then (perform SttStopped c)\<lparr>stt := False\<rparr> else c"
    have c1: "as_constructed cbs ?c1" using assms by (simp add: as_constructed_def perform_def)
    then have c2: "as_constructed cbs (stopAudioPlayback ?c1)"
      by (rule as_constructed_stopAudioPlayback)
    let ?c2 = "stopAudioPlayback ?c1"
    have c3: "as_constructed cbs (if audioContext ?c2 \<and> \<not> cfg_audioContext ?c2
                then (perform ContextClosed ?c2)\<lparr>audioContext := False\<rparr> else ?c2)"
      using c2 by (simp add: as_constructed_def perform_def)
    show ?thesis
      using c3 by (simp add: ev Stop stop_def Let_def as_constructed_coordTransition)
  next
    case (TranscriptArrived utterance isFinal)
    then show ?thesis using assms by (simp add: ev as_constructed_handleTranscript)
  next
    case (ChatAnswered r)
    show ?thesis
    proof (cases "chatOutcome r")
      case (Inl msg)
      then show ?thesis
        using assms
        by (simp add: ev ChatAnswered chatResponded_def chatCatch_def
            as_constructed_coordTransition as_constructed_notify)
    next
      case (Inr p)
      obtain reply cid where p: "p = (reply, cid)" by (cases p) auto
      have "as_constructed cbs (c\<lparr>conversationId := cid\<rparr>)"
        using assms by (simp add: as_constructed_def)
      then show ?thesis
        by (simp add: ev ChatAnswered chatResponded_def Inr p Let_def
            as_constructed_speakResponse as_constructed_notify)
    qed
  next
    case (TtsAnswered r)
    then show ?thesis
      using assms
      by (simp add: ev ttsResponded_def as_constructed_ttsCatch split: option.split)
  next
    case (TtsStreamRead r)
    then show ?thesis
      using assms
      by (cases r) (simp_all add: ev as_constructed_ttsLines as_constructed_ttsCatch)
  next
    case SourceEnded
    have "as_constructed cbs (c\<lparr>currentSourceNode := None\<rparr>)"
      using assms by (simp add: as_constructed_def)
    then show ?thesis
      by (simp add: ev SourceEnded sourceEnded_def as_constructed_playNextInQueue)
  next
    case TimerFired
    then show ?thesis
      using assms by (simp add: ev timerFired_def as_constructed_def)
  qed
qed

lemma as_constructed_run:
  assumes "as_constructed cbs c"
  shows "as_constructed cbs (run events c)"
  using assms unfolding run_def
  by (induction events arbitrary: c) (simp_all add: as_constructed_step)


subsection \<open>Failures of the remote calls\<close>

lemma errors_notify_error:
  "errors (notify True (NError msg) c) = errors c @ [msg]"
  by (simp add: errors_def notify_def)

lemma chatCatch_recovers:
  assumes "v_onError (vcallbacks c)"
  shows "errors (chatCatch msg now c) = errors c @ [''Error: '' @ msg]
       \<and> getCurrentState (chatCatch msg now c) = LISTENING"
  using assms
  by (simp add: chatCatch_def coordTransition_frame errors_notify_error getCurrentState_def
        getState_def to_listening)

lemma ttsCatch_recovers:
  assumes "v_onError (vcallbacks c)"
  shows "errors (ttsCatch msg now c) = errors c @ [''TTS error: '' @ msg]
       \<and> getCurrentState (ttsCatch msg now c) = LISTENING"
  using assms
  by (simp add: ttsCatch_def coordTransition_frame errors_notify_error getCurrentState_def
        getState_def to_listening)

text \<open>
  Claim C3. With an error observer registered, a failure of the chat call
  (the fetch or the parsing throws, the response is not ok, or the body carries
  a non-empty error) makes the continuation of \<open>processUserInput\<close> report
  exactly one error, "Error: " and the message, and leaves the machine in
  LISTENING, whatever state it was in. A failure of the TTS call (the fetch
  throws, the response is not ok or has no body, or reading the stream throws)
  makes \<open>speakResponse\<close> end with exactly one error, "TTS error: " and the
  message, and the machine in LISTENING.
\<close>

theorem remote_failure_recovers:
  assumes "v_onError (vcallbacks c)"
  shows "(chatOutcome r = Inl msg \<longrightarrow>
            errors (chatResponded r now c) = errors c @ [''Error: '' @ msg]
          \<and> getCurrentState (chatResponded r now c) = LISTENING)
     \<and> (ttsThrown t = Some msg \<longrightarrow>
            fst (ttsResponded t now c)
          \<and> errors (snd (ttsResponded t now c)) = errors c @ [''TTS error: '' @ msg]
          \<and> getCurrentState (snd (ttsResponded t now c)) = LISTENING)
     \<and> fst (ttsRead (ReadThrew msg) now c)
     \<and> errors (snd (ttsRead (ReadThrew msg) now c)) = errors c @ [''TTS error: '' @ msg]
     \<and> getCurrentState (snd (ttsRead (ReadThrew msg) now c)) = LISTENING
     \<and> chatOutcome (ChatThrew msg) = Inl msg
     \<and> chatOutcome (ChatNotOk statusText) = Inl (''API error: '' @ statusText)
     \<and> (msg \<noteq> [] \<longrightarrow> chatOutcome (ChatData (Some msg) reply cid) = Inl msg)
     \<and> ttsThrown (TtsThrew msg) = Some msg
     \<and> ttsThrown (TtsNotOk statusText) = Some (''TTS error: '' @ statusText)
     \<and> ttsThrown TtsNoBody = Some ''No response body''"
proof -
  note chat = chatCatch_recovers [OF assms, of msg now]
  note tts = ttsCatch_recovers [OF assms, of msg now]
  have a: "chatOutcome r = Inl msg \<longrightarrow>
            errors (chatResponded r now c) = errors c @ [''Error: '' @ msg]
          \<and> getCurrentState (chatResponded r now c) = LISTENING"
    using chat by (simp add: chatResponded_def)
  have b: "ttsThrown t = Some msg \<longrightarrow>
            fst (ttsResponded t now c)
          \<and> errors (snd (ttsResponded t now c)) = errors c @ [''TTS error: '' @ msg]
          \<and> getCurrentState (snd (ttsResponded t now c)) = LISTENING"
    using tts by (simp add: ttsResponded_def)
  have c1: "fst (ttsRead (ReadThrew msg) now c)" by simp
  have c2: "errors (snd (ttsRead (ReadThrew msg) now c)) = errors c @ [''TTS error: '' @ msg]"
    using tts by simp
  have c3: "getCurrentState (snd (ttsRead (ReadThrew msg) now c)) = LISTENING"
    using tts by simp
  have d: "msg \<noteq> [] \<longrightarrow> chatOutcome (ChatData (Some msg) reply cid) = Inl msg"
    by simp
  show ?thesis
    by (intro conjI) (rule a b c1 c2 c3 d chatOutcome.simps ttsThrown.simps)+
qed

theorem remote_failure_recovers_witness:
  "v_onError (vcallbacks (run thinking_turn hook_coordinator))
   \<and> getCurrentState (run thinking_turn hook_coordinator) = THINKING
   \<and> chatOutcome (ChatNotOk ''Bad Gateway'') = Inl ''API error: Bad Gateway''
   \<and> errors (chatResponded (ChatNotOk ''Bad Gateway'') 2500 (run thinking_turn hook_coordinator))
        = [''Error: API error: Bad Gateway'']
   \<and> getCurrentState (chatResponded (ChatNotOk ''Bad Gateway'') 2500
          (run thinking_turn hook_coordinator)) = LISTENING
   \<and> getCurrentState (run speaking_turn hook_coordinator) = SPEAKING
   \<and> ttsThrown TtsNoBody = Some ''No response body''
   \<and> errors (snd (ttsResponded TtsNoBody 2700 (run speaking_turn hook_coordinator)))
        = [''TTS error: No response body'']
   \<and> getCurrentState (snd (ttsResponded TtsNoBody 2700 (run speaking_turn hook_coordinator)))
        = LISTENING
   \<and> ''quota'' \<noteq> []
   \<and> chatOutcome (ChatData (Some ''quota'') (utf16 ''x'') None) = Inl ''quota''"
proof -
  have e1: "v_onError (vcallbacks (run thinking_turn hook_coordinator))" by code_simp
  have e2: "v_onError (vcallbacks (run speaking_turn hook_coordinator))" by code_simp
  have s1: "getCurrentState (run thinking_turn hook_coordinator) = THINKING" by code_simp
  have s2: "getCurrentState (run speaking_turn hook_coordinator) = SPEAKING" by code_simp
  have n1: "errors (run thinking_turn hook_coordinator) = []" by code_simp
  have n2: "errors (run speaking_turn hook_coordinator) = []" by code_simp
  have o1: "chatOutcome (ChatNotOk ''Bad Gateway'') = Inl ''API error: Bad Gateway''" by simp
  have o2: "ttsThrown TtsNoBody = Some ''No response body''" by simp
  note a = remote_failure_recovers [OF e1, where r = "ChatNotOk ''Bad Gateway''"
      and msg = "''API error: Bad Gateway''" and now = 2500 and t = TtsOk
      and statusText = "''Bad Gateway''" and reply = "utf16 ''x''" and cid = None]
  note b = remote_failure_recovers [OF e2, where r = "ChatThrew []"
      and msg = "''No response body''" and now = 2700 and t = TtsNoBody
      and statusText = "''Bad Gateway''" and reply = "utf16 ''x''" and cid = None]
  note c = remote_failure_recovers [OF e1, where r = "ChatThrew []"
      and msg = "''quota''" and now = 2700 and t = TtsOk
      and statusText = "''Bad Gateway''" and reply = "utf16 ''x''" and cid = None]
  have a': "errors (chatResponded (ChatNotOk ''Bad Gateway'') 2500 (run thinking_turn hook_coordinator))
        = [''Error: API error: Bad Gateway'']
     \<and> getCurrentState (chatResponded (ChatNotOk ''Bad Gateway'') 2500
          (run thinking_turn hook_coordinator)) = LISTENING"
    using a o1 n1 by simp
  have b': "errors (snd (ttsResponded TtsNoBody 2700 (run speaking_turn hook_coordinator)))
        = [''TTS error: No response body'']
     \<and> getCurrentState (snd (ttsResponded TtsNoBody 2700 (run speaking_turn hook_coordinator)))
        = LISTENING"
    using b o2 n2 by simp
  have c': "chatOutcome (ChatData (Some ''quota'') (utf16 ''x'') None) = Inl ''quota''"
    using c by simp
  from e1 s1 o1 a' s2 o2 b' c' show ?thesis by simp
qed

subsection \<open>The state-change observer\<close>

text \<open>
  Claim C10. The coordinator's state machine calls back on every state change,
  and the coordinator passes the first argument of that call on: on a
  successful transition from \<open>F\<close> to \<open>T\<close> the coordinator's observer receives
  \<open>F\<close>, the state that is left. A rejected transition notifies nobody.
\<close>

theorem observer_receives_from_state:
  assumes "has_onStateChange (callbacks (stateMachine c))" and "v_onStateChange (vcallbacks c)"
  shows "(T \<in> allowed_set (getCurrentState c) \<longrightarrow>
            notifications (coordTransition T now c) =
              notifications c @ [NStateChange (getCurrentState c)]
          \<and> getCurrentState (coordTransition T now c) = T)
     \<and> (T \<notin> allowed_set (getCurrentState c) \<longrightarrow> coordTransition T now c = c)
     \<and> has_onStateChange (callbacks (stateMachine (run events (new_coordinator p cbs))))
     \<and> vcallbacks (run events (new_coordinator p cbs)) = cbs"
proof -
  have ok: "T \<in> allowed_set (getCurrentState c) \<longrightarrow>
            notifications (coordTransition T now c) =
              notifications c @ [NStateChange (getCurrentState c)]
          \<and> getCurrentState (coordTransition T now c) = T"
    using assms
    by (simp add: getCurrentState_def getState_def isValidTransition_allowed_set [symmetric]
          coordTransition_valid notify_def transition_valid)
  have no: "T \<notin> allowed_set (getCurrentState c) \<longrightarrow> coordTransition T now c = c"
    by (simp add: getCurrentState_def getState_def isValidTransition_allowed_set [symmetric]
          coordTransition_invalid)
  have "as_constructed cbs (run events (new_coordinator p cbs))"
    using as_constructed_new by (rule as_constructed_run)
  then have inv: "has_onStateChange (callbacks (stateMachine (run events (new_coordinator p cbs))))"
      "vcallbacks (run events (new_coordinator p cbs)) = cbs"
    by (simp_all add: as_constructed_def)
  show ?thesis
    by (intro conjI) (rule ok no inv)+
qed

theorem observer_receives_from_state_witness:
  "has_onStateChange (callbacks (stateMachine hook_coordinator))
   \<and> v_onStateChange (vcallbacks hook_coordinator)
   \<and> LISTENING \<in> allowed_set (getCurrentState hook_coordinator)
   \<and> getCurrentState hook_coordinator = IDLE
   \<and> notifications (coordTransition LISTENING 1000 hook_coordinator) = [NStateChange IDLE]
   \<and> getCurrentState (coordTransition LISTENING 1000 hook_coordinator) = LISTENING
   \<and> SPEAKING \<notin> allowed_set (getCurrentState hook_coordinator)
   \<and> coordTransition SPEAKING 1000 hook_coordinator = hook_coordinator"
proof -
  have h: "has_onStateChange (callbacks (stateMachine hook_coordinator))"
    by (simp add: hook_coordinator_def new_coordinator_def new_machine_def)
  have v: "v_onStateChange (vcallbacks hook_coordinator)"
    by (simp add: hook_coordinator_def new_coordinator_def all_callbacks_def)
  have s: "getCurrentState hook_coordinator = IDLE"
    by (simp add: hook_coordinator_def new_coordinator_def new_machine_def getCurrentState_def
          getState_def)
  have n: "notifications hook_coordinator = []"
    by (simp add: hook_coordinator_def new_coordinator_def)
  from observer_receives_from_state [OF h v, where T = LISTENING and now = 1000]
       observer_receives_from_state [OF h v, where T = SPEAKING and now = 1000]
       h v s n
  show ?thesis by simp
qed

subsection \<open>Barge-in\<close>

text \<open>
  \<open>handleBargeIn\<close>, when it is called in SPEAKING, stops the playing node,
  empties the queue, moves the machine to BARGE_IN and sets a timeout of 300 ms;
  the timeout's function moves on to LISTENING only from BARGE_IN, and it does
  not run before it is due.
\<close>

lemma stopAudioPlayback_clears:
  "audioQueue (stopAudioPlayback c) = [] \<and> \<not> isPlaying (stopAudioPlayback c)
   \<and> currentSourceNode (stopAudioPlayback c) = None
   \<and> stateMachine (stopAudioPlayback c) = stateMachine c
   \<and> timers (stopAudioPlayback c) = timers c
   \<and> effects (stopAudioPlayback c) =
        effects c @ (if currentEventSource c then [EventSourceClosed] else [])
          @ (case currentSourceNode c of None \<Rightarrow> [] | Some node \<Rightarrow> [SourceStopped node])"
  by (simp add: stopAudioPlayback_def perform_def Let_def split: option.split)

lemma handleBargeIn_when_speaking:
  assumes "getCurrentState c = SPEAKING"
  shows "audioQueue (handleBargeIn now c) = []
     \<and> \<not> isPlaying (handleBargeIn now c)
     \<and> currentSourceNode (handleBargeIn now c) = None
     \<and> getCurrentState (handleBargeIn now c) = BARGE_IN
     \<and> timers (handleBargeIn now c) = timers c @ [now + 300]
     \<and> effects (handleBargeIn now c) =
          effects c @ (if currentEventSource c then [EventSourceClosed] else [])
            @ (case currentSourceNode c of None \<Rightarrow> [] | Some node \<Rightarrow> [SourceStopped node])
            @ [TimeoutSet 300]"
proof -
  have v: "isValidTransition (state (stateMachine (stopAudioPlayback c))) BARGE_IN"
    using assms stopAudioPlayback_clears [of c]
    by (simp add: getCurrentState_def getState_def isValidTransition_def)
  show ?thesis
    using stopAudioPlayback_clears [of c] v
    by (simp add: handleBargeIn_def Let_def perform_def coordTransition_frame
          coordTransition_state getCurrentState_def getState_def)
qed

lemma graceTimeout_guard:
  "getCurrentState (graceTimeout now c) =
     (if getCurrentState c = BARGE_IN then LISTENING else getCurrentState c)"
  "getCurrentState c \<noteq> BARGE_IN \<Longrightarrow> graceTimeout now c = c"
  by (simp_all add: graceTimeout_def getCurrentState_def getState_def to_listening)

lemma timerFired_not_before_due:
  assumes "timers c = due # rest" "now < due"
  shows "timerFired now c = c"
  using assms by (simp add: timerFired_def)

text \<open>
  Claim C2 is about what follows a signal of the detector. The detector's
  constructor does not keep the \<open>onBargeIn\<close> of the configuration the
  coordinator passes, and the coordinator never calls \<open>setBargeInCallback\<close>:
  the detector of a coordinator has no callback. So no run of a coordinator
  reaches BARGE_IN or leaves a grace timeout pending. In the run shown, a partial
  transcript arrives in SPEAKING at 3000: the detector honours the trigger (the
  time of its last trigger becomes 3000), and the coordinator goes on playing
  buffer 1 in SPEAKING, with no further effect and no timeout.
\<close>

theorem bargein_signal_never_delivered:
  "getCurrentState (run events (new_coordinator p cbs)) \<noteq> BARGE_IN
   \<and> onBargeIn (bargeInDetector (run events (new_coordinator p cbs))) = None
   \<and> timers (run events (new_coordinator p cbs)) = []
   \<and> getCurrentState (run speaking_turn hook_coordinator) = SPEAKING
   \<and> currentSourceNode (run speaking_turn hook_coordinator) = Some (AudioBuffer 1)
   \<and> lastBargeIn (bargeInDetector (run speaking_turn hook_coordinator)) = 0
   \<and> lastBargeIn (bargeInDetector (run interrupted_turn hook_coordinator)) = 3000
   \<and> getCurrentState (run interrupted_turn hook_coordinator) = SPEAKING
   \<and> currentSourceNode (run interrupted_turn hook_coordinator) = Some (AudioBuffer 1)
   \<and> isPlaying (run interrupted_turn hook_coordinator)
   \<and> effects (run interrupted_turn hook_coordinator) = effects (run speaking_turn hook_coordinator)
   \<and> timers (run interrupted_turn hook_coordinator) = []"
proof -
  have "as_constructed cbs (run events (new_coordinator p cbs))"
    using as_constructed_new by (rule as_constructed_run)
  then have g: "getCurrentState (run events (new_coordinator p cbs)) \<noteq> BARGE_IN"
    "onBargeIn (bargeInDetector (run events (new_coordinator p cbs))) = None"
    "timers (run events (new_coordinator p cbs)) = []"
    by (simp_all add: as_constructed_def getCurrentState_def getState_def)
  have c1: "getCurrentState (run speaking_turn hook_coordinator) = SPEAKING" by code_simp
  have c2: "currentSourceNode (run speaking_turn hook_coordinator) = Some (AudioBuffer 1)"
    by code_simp
  have c3: "lastBargeIn (bargeInDetector (run speaking_turn hook_coordinator)) = 0" by code_simp
  have c4: "lastBargeIn (bargeInDetector (run interrupted_turn hook_coordinator)) = 3000"
    by code_simp
  have c5: "getCurrentState (run interrupted_turn hook_coordinator) = SPEAKING" by code_simp
  have c6: "currentSourceNode (run interrupted_turn hook_coordinator) = Some (AudioBuffer 1)"
    by code_simp
  have c7: "isPlaying (run interrupted_turn hook_coordinator)" by code_simp
  have c8: "effects (run interrupted_turn hook_coordinator) = effects (run speaking_turn hook_coordinator)"
    by code_simp
  have c9: "timers (run interrupted_turn hook_coordinator) = []" by code_simp
  show ?thesis
    by (intro conjI) (rule g c1 c2 c3 c4 c5 c6 c7 c8 c9)+
qed

subsection \<open>Chunks after a cancellation\<close>

text \<open>
  A chunk that decodes is queued and, when nothing is playing, played at once:
  \<open>playAudioChunk\<close> looks at the audio context and at \<open>isPlaying\<close>, not at
  the state of the conversation.
\<close>

lemma stale_chunk_general:
  assumes "audioContext c" "\<not> isPlaying c" "audioQueue c = []"
  shows "currentSourceNode (playAudioChunk (Some b) c) = Some b
       \<and> isPlaying (playAudioChunk (Some b) c)
       \<and> effects (playAudioChunk (Some b) c) =
           effects c @ [SourceStarted b (v_getLipSyncEngine (vcallbacks c))]"
  using assms by (simp add: playAudioChunk_def playNextInQueue_def perform_def Let_def)


text \<open>
  Claim C4 asks that chunks arriving after a cancellation are dropped. The read
  loop of \<open>speakResponse\<close> checks nothing before it hands a chunk to
  \<open>playAudioChunk\<close>. In the run shown the coordinator has the hook's audio
  context; \<open>stop()\<close> at 3000 leaves the machine in IDLE with an empty queue and
  nothing playing, and the chunk the stream delivers at 3100 is played: buffer 2
  is the current source node and the machine is still in IDLE. The same happens
  to a chunk that arrives after \<open>handleBargeIn\<close>.
\<close>

theorem stale_chunk_played_after_stop:
  "getCurrentState (run stopped_turn hook_coordinator) = IDLE
   \<and> audioQueue (run stopped_turn hook_coordinator) = []
   \<and> \<not> isPlaying (run stopped_turn hook_coordinator)
   \<and> currentSourceNode (run stopped_turn hook_coordinator) = None
   \<and> getCurrentState (step stale_chunk (run stopped_turn hook_coordinator)) = IDLE
   \<and> isPlaying (step stale_chunk (run stopped_turn hook_coordinator))
   \<and> currentSourceNode (step stale_chunk (run stopped_turn hook_coordinator)) = Some (AudioBuffer 2)
   \<and> effects (step stale_chunk (run stopped_turn hook_coordinator)) =
       effects (run stopped_turn hook_coordinator) @ [SourceStarted (AudioBuffer 2) True]
   \<and> getCurrentState (handleBargeIn 3000 (run speaking_turn hook_coordinator)) = BARGE_IN
   \<and> audioQueue (handleBargeIn 3000 (run speaking_turn hook_coordinator)) = []
   \<and> currentSourceNode (step stale_chunk (handleBargeIn 3000 (run speaking_turn hook_coordinator)))
       = Some (AudioBuffer 2)
   \<and> getCurrentState (step stale_chunk (handleBargeIn 3000 (run speaking_turn hook_coordinator)))
       = BARGE_IN"
  by (intro conjI; code_simp)



end
